theory Spec2Isabelle
  imports Main "HOL-Library.Word" "HOL-Library.Log_Nat"
begin

section \<open>Exceptions\<close>

text \<open>
  The exceptions that the swap engine raises or meets, each with the text that
  \<^verbatim>\<open>str(e)\<close> gives. \<open>BlockchainError\<close> and \<open>ConfigurationError\<close> are the classes of
  \<^verbatim>\<open>src/utils/errors.py\<close>; the others are Python built-ins or come from the RPC library
  (\<open>TransportError\<close> for a failed request, \<open>TimeExhausted\<close> for a receipt wait that ran out,
  \<open>TransactionNotFound\<close> for a receipt query about a transaction that has none).
\<close>

datatype py_error =
    NameError string
  | ValueError string
  | ZeroDivisionError string
  | OverflowError string
  | ImportError string
  | EncodingError string
  | TransportError string
  | TimeExhausted string
  | TransactionNotFound string
  | BlockchainError string
  | ConfigurationError string

fun error_message :: "py_error \<Rightarrow> string" where
  "error_message (NameError m) = m"
| "error_message (ValueError m) = m"
| "error_message (ZeroDivisionError m) = m"
| "error_message (OverflowError m) = m"
| "error_message (ImportError m) = m"
| "error_message (EncodingError m) = m"
| "error_message (TransportError m) = m"
| "error_message (TimeExhausted m) = m"
| "error_message (TransactionNotFound m) = m"
| "error_message (BlockchainError m) = m"
| "error_message (ConfigurationError m) = m"

section \<open>The module \<^verbatim>\<open>utils/errors.py\<close>\<close>

text \<open>
  A name used in a function body is looked up in the module's globals and then in the
  built-in namespace; a name bound in neither raises \<open>NameError\<close>. The globals of
  \<^verbatim>\<open>errors.py\<close> are the three names it imports from \<^verbatim>\<open>typing\<close>, its ten classes and
  \<open>format_error\<close> itself.
\<close>

definition errors_module_globals :: "string list" where
  "errors_module_globals =
    [''Optional'', ''Any'', ''Dict'', ''BaseError'', ''APIError'', ''MessageHandlingError'',
     ''ConfigurationError'', ''BlockchainError'', ''CommunicationError'',
     ''DataValidationError'', ''SwapError'', ''LLMError'', ''AuthenticationError'',
     ''format_error'']"

definition python_builtins :: "string list" where
  "python_builtins =
    [''ArithmeticError'', ''AssertionError'', ''AttributeError'', ''BaseException'',
     ''BaseExceptionGroup'', ''BlockingIOError'', ''BrokenPipeError'', ''BufferError'',
     ''BytesWarning'', ''ChildProcessError'', ''ConnectionAbortedError'', ''ConnectionError'',
     ''ConnectionRefusedError'', ''ConnectionResetError'', ''DeprecationWarning'',
     ''EOFError'', ''Ellipsis'', ''EncodingWarning'', ''EnvironmentError'', ''Exception'',
     ''ExceptionGroup'', ''False'', ''FileExistsError'', ''FileNotFoundError'',
     ''FloatingPointError'', ''FutureWarning'', ''GeneratorExit'', ''IOError'',
     ''ImportError'', ''ImportWarning'', ''IndentationError'', ''IndexError'',
     ''InterruptedError'', ''IsADirectoryError'', ''KeyError'', ''KeyboardInterrupt'',
     ''LookupError'', ''MemoryError'', ''ModuleNotFoundError'', ''NameError'', ''None'',
     ''NotADirectoryError'', ''NotImplemented'', ''NotImplementedError'', ''OSError'',
     ''OverflowError'', ''PendingDeprecationWarning'', ''PermissionError'',
     ''ProcessLookupError'', ''RecursionError'', ''ReferenceError'', ''ResourceWarning'',
     ''RuntimeError'', ''RuntimeWarning'', ''StopAsyncIteration'', ''StopIteration'',
     ''SyntaxError'', ''SyntaxWarning'', ''SystemError'', ''SystemExit'', ''TabError'',
     ''TimeoutError'', ''True'', ''TypeError'', ''UnboundLocalError'', ''UnicodeDecodeError'',
     ''UnicodeEncodeError'', ''UnicodeError'', ''UnicodeTranslateError'', ''UnicodeWarning'',
     ''UserWarning'', ''ValueError'', ''Warning'', ''ZeroDivisionError'', ''__build_class__'',
     ''__debug__'', ''__doc__'', ''__import__'', ''__loader__'', ''__name__'', ''__package__'',
     ''__spec__'', ''abs'', ''aiter'', ''all'', ''anext'', ''any'', ''ascii'', ''bin'',
     ''bool'', ''breakpoint'', ''bytearray'', ''bytes'', ''callable'', ''chr'',
     ''classmethod'', ''compile'', ''complex'', ''copyright'', ''credits'', ''delattr'',
     ''dict'', ''dir'', ''divmod'', ''enumerate'', ''eval'', ''exec'', ''exit'', ''filter'',
     ''float'', ''format'', ''frozenset'', ''getattr'', ''globals'', ''hasattr'', ''hash'',
     ''help'', ''hex'', ''id'', ''input'', ''int'', ''isinstance'', ''issubclass'', ''iter'',
     ''len'', ''list'', ''license'', ''locals'', ''map'', ''max'', ''memoryview'', ''min'',
     ''next'', ''object'', ''oct'', ''open'', ''ord'', ''pow'', ''print'', ''property'',
     ''quit'', ''range'', ''repr'', ''reversed'', ''round'', ''set'', ''setattr'', ''slice'',
     ''sorted'', ''staticmethod'', ''str'', ''sum'', ''super'', ''tuple'', ''type'', ''vars'',
     ''zip'']"

definition resolve_name :: "string \<Rightarrow> py_error + string" where
  "resolve_name n =
     (if n \<in> set errors_module_globals \<or> n \<in> set python_builtins then Inr n
      else Inl (NameError (''name '' @ [CHR 0x27] @ n @ [CHR 0x27] @ '' is not defined'')))"

text \<open>
  An exception object as \<open>format_error\<close> sees it: its class name, the names of the classes
  it is an instance of, what \<^verbatim>\<open>str\<close> gives, and the \<open>message\<close> and \<open>details\<close> attributes
  that \<open>BaseError\<close> sets.
\<close>

record exception_obj =
  exc_class_name :: string
  exc_classes :: "string list"
  exc_str :: string
  exc_message :: string
  exc_details :: "(string \<times> string) list"

record error_dict =
  ed_error :: string
  ed_message :: string
  ed_details :: "(string \<times> string) list"

definition isinstance :: "exception_obj \<Rightarrow> string \<Rightarrow> bool" where
  "isinstance e cls = (cls \<in> set (exc_classes e))"

definition format_error :: "exception_obj \<Rightarrow> py_error + error_dict" where
  "format_error error =
     (case resolve_name ''CryptoAgentError'' of
        Inl e \<Rightarrow> Inl e
      | Inr cls \<Rightarrow>
          if isinstance error cls
          then Inr \<lparr>ed_error = exc_class_name error, ed_message = exc_message error,
                    ed_details = exc_details error\<rparr>
          else Inr \<lparr>ed_error = exc_class_name error, ed_message = exc_str error,
                    ed_details = []\<rparr>)"

section \<open>Python floats\<close>

text \<open>
  Python's \<open>float\<close> is IEEE 754 binary64. A float is a finite real that binary64 can
  represent, an infinity or NaN; the two zeros are not told apart, since the code never
  looks at the sign of a zero (a division by either raises). Every arithmetic operation
  computes the exact result and rounds it to the nearest representable value, ties to
  even (\<open>round64\<close>): 53 significant bits, exponents from -1022 (below which the spacing
  stays \<open>2 ^ -1074\<close>) to 1023, anything that rounds to \<open>2 ^ 1024\<close> or more becoming
  an infinity.
\<close>

datatype pyfloat = Fin real | PInf | NInf | NaN

definition pow2 :: "int \<Rightarrow> real" where
  "pow2 e = (if 0 \<le> e then 2 ^ nat e else 1 / 2 ^ nat (- e))"

definition ilog2 :: "real \<Rightarrow> int" where
  \<comment> \<open>for \<open>0 < q\<close>, the \<open>e\<close> with \<open>2 ^ e \<le> q < 2 ^ (e + 1)\<close>\<close>
  "ilog2 q = (if 1 \<le> q then bitlen \<lfloor>q\<rfloor> - 1 else - bitlen (\<lceil>1 / q\<rceil> - 1))"

definition round_half_even :: "real \<Rightarrow> int" where
  "round_half_even x =
     (let f = \<lfloor>x\<rfloor>; d = x - of_int f
      in if d < 1 / 2 then f else if 1 / 2 < d then f + 1 else if even f then f else f + 1)"

text \<open>
  The exponent of the binade that \<open>q\<close> is rounded in, and the multiple of that binade's
  spacing nearest to \<open>\<bar>q\<bar>\<close>.
\<close>

definition exponent_of :: "real \<Rightarrow> int" where
  "exponent_of q = max (ilog2 \<bar>q\<bar>) (- 1022)"

definition nearest :: "real \<Rightarrow> real" where
  "nearest q =
     (let ulp = pow2 (exponent_of q - 52)
      in of_int (round_half_even (\<bar>q\<bar> / ulp)) * ulp)"

definition round64 :: "real \<Rightarrow> pyfloat" where
  "round64 q =
     (if q = 0 then Fin 0
      else let r = nearest q
           in if pow2 1024 \<le> r then (if 0 < q then PInf else NInf) else Fin (sgn q * r))"

definition sign_of :: "pyfloat \<Rightarrow> real" where
  "sign_of x = (case x of Fin a \<Rightarrow> sgn a | PInf \<Rightarrow> 1 | NInf \<Rightarrow> - 1 | NaN \<Rightarrow> 0)"

definition float_mul :: "pyfloat \<Rightarrow> pyfloat \<Rightarrow> pyfloat" where
  "float_mul x y =
     (if x = NaN \<or> y = NaN then NaN
      else case (x, y) of
             (Fin a, Fin b) \<Rightarrow> round64 (a * b)
           | _ \<Rightarrow> (let s = sign_of x * sign_of y
                   in if s = 0 then NaN else if 0 < s then PInf else NInf))"

fun float_sub :: "pyfloat \<Rightarrow> pyfloat \<Rightarrow> pyfloat" where
  "float_sub NaN y = NaN"
| "float_sub x NaN = NaN"
| "float_sub (Fin a) (Fin b) = round64 (a - b)"
| "float_sub (Fin a) PInf = NInf"
| "float_sub (Fin a) NInf = PInf"
| "float_sub PInf PInf = NaN"
| "float_sub PInf y = PInf"
| "float_sub NInf NInf = NaN"
| "float_sub NInf y = NInf"

definition float_truediv :: "pyfloat \<Rightarrow> pyfloat \<Rightarrow> py_error + pyfloat" where
  "float_truediv x y =
     (if y = Fin 0 then Inl (ZeroDivisionError ''float division by zero'')
      else if x = NaN \<or> y = NaN then Inr NaN
      else case (x, y) of
             (Fin a, Fin b) \<Rightarrow> Inr (round64 (a / b))
           | (Fin a, _) \<Rightarrow> Inr (Fin 0)
           | (_, Fin b) \<Rightarrow> Inr (if 0 < sign_of x * sgn b then PInf else NInf)
           | _ \<Rightarrow> Inr NaN)"

text \<open>Comparisons: every comparison with NaN is false.\<close>

fun float_le :: "pyfloat \<Rightarrow> pyfloat \<Rightarrow> bool" where
  "float_le NaN y = False"
| "float_le x NaN = False"
| "float_le NInf y = True"
| "float_le x PInf = True"
| "float_le (Fin a) (Fin b) = (a \<le> b)"
| "float_le PInf y = False"
| "float_le x NInf = False"

definition float_lt :: "pyfloat \<Rightarrow> pyfloat \<Rightarrow> bool" where
  "float_lt x y = (float_le x y \<and> x \<noteq> y)"

definition float_gt :: "pyfloat \<Rightarrow> pyfloat \<Rightarrow> bool" where
  "float_gt x y = float_lt y x"

text \<open>\<^verbatim>\<open>int(x)\<close> truncates towards zero and raises on an infinity or NaN.\<close>

fun py_int :: "pyfloat \<Rightarrow> py_error + int" where
  "py_int (Fin a) = Inr (if 0 \<le> a then \<lfloor>a\<rfloor> else \<lceil>a\<rceil>)"
| "py_int NaN = Inl (ValueError ''cannot convert float NaN to integer'')"
| "py_int x = Inl (OverflowError ''cannot convert float infinity to integer'')"

text \<open>
  An \<open>int\<close> operand of a float operation is converted first, rounding to nearest; an
  integer too large for a float raises.
\<close>

definition float_of_int :: "int \<Rightarrow> py_error + pyfloat" where
  "float_of_int n =
     (case round64 (of_int n) of
        Fin a \<Rightarrow> Inr (Fin a)
      | _ \<Rightarrow> Inl (OverflowError ''int too large to convert to float''))"

text \<open>The quotient of two integers (\<^verbatim>\<open>a / b\<close>) is the exact quotient, rounded once.\<close>

definition int_truediv :: "int \<Rightarrow> int \<Rightarrow> py_error + pyfloat" where
  "int_truediv a b =
     (if b = 0 then Inl (ZeroDivisionError ''division by zero'')
      else case round64 (of_int a / of_int b) of
             Fin q \<Rightarrow> Inr (Fin q)
           | _ \<Rightarrow> Inl (OverflowError ''integer division result too large for a float''))"

text \<open>A float value: an infinity, NaN, or a finite real that rounding leaves as it is.\<close>

fun is_float64 :: "pyfloat \<Rightarrow> bool" where
  "is_float64 (Fin r) = (round64 r = Fin r)"
| "is_float64 x = True"

text \<open>
  The significand of the rounded value: the integer number of spacings of its binade.
\<close>

definition significand :: "real \<Rightarrow> int" where
  "significand q = round_half_even (\<bar>q\<bar> / pow2 (exponent_of q - 52))"


section \<open>Transactions and the router codec\<close>

text \<open>Addresses and the chain id, from \<^verbatim>\<open>config/settings.py\<close> and the services' constructors.\<close>

definition USDC_ADDRESS :: string where
  "USDC_ADDRESS = ''0x833589fCD6eDb6E08f4c7C32D4f71b54bdA02913''"

definition WETH_ADDRESS :: string where
  "WETH_ADDRESS = ''0x4200000000000000000000000000000000000006''"

definition UNIVERSAL_ROUTER_ADDRESS :: string where
  "UNIVERSAL_ROUTER_ADDRESS = ''0x3fC91A3afd70395Cd496C647d5a6CC9D4B2b7FAD''"

definition permit2_address :: string where
  "permit2_address = ''0x000000000022D473030F116dDEE9F6B43aC78BA3''"

definition BASE_CHAIN_ID :: int where
  "BASE_CHAIN_ID = 8453"

definition MAX_UINT256 :: int where
  "MAX_UINT256 = 2 ^ 256 - 1"

text \<open>
  The commands that a chain of the router codec collects. Each builder method appends
  its command to the chain it is called on, so \<^verbatim>\<open>chain().a(..).b(..).build(d)\<close> encodes
  the commands in the order of the calls. The encoded bytes are kept as the command
  list and the deadline they encode; encoding an amount outside \<open>uint256\<close> raises.
\<close>

datatype FunctionRecipient = SENDER | ROUTER

datatype router_command =
    WRAP_ETH FunctionRecipient int
  | V2_SWAP_EXACT_IN FunctionRecipient int int "string list" bool
  | UNWRAP_WETH FunctionRecipient int

datatype call_data =
    Approve string int
  | Execute "router_command list" nat

definition chain :: "router_command list" where
  "chain = []"

definition wrap_eth :: "FunctionRecipient \<Rightarrow> int \<Rightarrow> router_command list \<Rightarrow> router_command list" where
  "wrap_eth recipient amount cs = cs @ [WRAP_ETH recipient amount]"

definition v2_swap_exact_in ::
  "FunctionRecipient \<Rightarrow> int \<Rightarrow> int \<Rightarrow> string list \<Rightarrow> bool \<Rightarrow> router_command list
     \<Rightarrow> router_command list" where
  "v2_swap_exact_in recipient amount_in amount_out_min path payer_is_sender cs =
     cs @ [V2_SWAP_EXACT_IN recipient amount_in amount_out_min path payer_is_sender]"

definition unwrap_weth :: "FunctionRecipient \<Rightarrow> int \<Rightarrow> router_command list \<Rightarrow> router_command list" where
  "unwrap_weth recipient amount_min cs = cs @ [UNWRAP_WETH recipient amount_min]"

definition is_uint256 :: "int \<Rightarrow> bool" where
  "is_uint256 n = (0 \<le> n \<and> n \<le> MAX_UINT256)"

fun command_encodable :: "router_command \<Rightarrow> bool" where
  "command_encodable (WRAP_ETH r a) = is_uint256 a"
| "command_encodable (V2_SWAP_EXACT_IN r a m p b) = (is_uint256 a \<and> is_uint256 m)"
| "command_encodable (UNWRAP_WETH r a) = is_uint256 a"

definition build :: "nat \<Rightarrow> router_command list \<Rightarrow> py_error + call_data" where
  "build deadline cs =
     (if list_all command_encodable cs then Inr (Execute cs deadline)
      else Inl (EncodingError ''value out of bounds for uint256''))"

record transaction =
  tx_from :: string
  tx_to :: string
  tx_gas :: int
  tx_max_priority_fee :: int
  tx_max_fee :: int
  tx_type :: "string option"
  tx_chain_id :: int
  tx_value :: int
  tx_nonce :: nat
  tx_data :: call_data

text \<open>Signing is local; a transaction with a negative numeric field cannot be serialised.\<close>

definition sign_transaction :: "transaction \<Rightarrow> py_error + transaction" where
  "sign_transaction tx =
     (if 0 \<le> tx_gas tx \<and> 0 \<le> tx_max_priority_fee tx \<and> 0 \<le> tx_max_fee tx \<and> 0 \<le> tx_value tx
      then Inr tx
      else Inl (EncodingError ''cannot serialize a negative integer''))"

text \<open>\<^verbatim>\<open>to_hex\<close> of a 32-byte hash: \<open>0x\<close> and 64 hexadecimal digits.\<close>

definition hex_digit :: "nat \<Rightarrow> char" where
  "hex_digit n = ''0123456789abcdef'' ! (n mod 16)"

definition to_hex :: "256 word \<Rightarrow> string" where
  "to_hex h = ''0x'' @ map (\<lambda>i. hex_digit (unat h div 16 ^ i)) (rev [0..<64])"

section \<open>The ledger behind the RPC client\<close>

datatype block_id = Latest | Pending

record receipt =
  r_status :: int
  r_blockNumber :: int
  r_gasUsed :: int

datatype rpc =
    Get_balance
  | BalanceOf
  | Allowance
  | Get_transaction_count block_id
  | Gas_price
  | Max_priority_fee
  | Send_raw_transaction transaction
  | Wait_for_transaction_receipt string
  | Get_transaction_receipt string
  | Block_number
  | Fetch_price

datatype log_entry = LogInfo string | LogWarning string | LogError string

datatype fetch_result = Returns pyfloat | Raises py_error

text \<open>
  The world a service instance talks to. The chain state is that of the service's own
  account: balances, the USDC allowance it has given to Permit2 (a \<open>uint256\<close>), the number of its
  transactions already in blocks, and its submitted transactions not yet in a block.
  \<open>rpc_log\<close> records every request made, in order; \<open>down\<close> tells which requests fail
  in transport. \<open>miner_active\<close> tells whether a receipt wait sees the pending
  transactions included before its timeout. \<open>keccak\<close>, \<open>to_wei\<close>, \<open>now\<close> and
  \<open>fetch_price\<close> stand for the hash function, the library's unit conversion, the clock
  and the rate source, which lie outside the repository.
\<close>

record world =
  eth_balance :: nat
  usdc_balance :: nat
  allowance :: "256 word"
  confirmed_count :: nat
  mempool :: "transaction list"
  block_number :: int
  receipts :: "string \<Rightarrow> receipt option"
  gas_price :: nat
  max_priority_fee :: nat
  miner_active :: bool
  tx_succeeds :: "transaction \<Rightarrow> bool"
  down :: "rpc \<Rightarrow> bool"
  keccak :: "transaction \<Rightarrow> 256 word"
  to_wei :: "pyfloat \<Rightarrow> py_error + int"
  now :: nat
  fetch_price :: fetch_result
  rpc_log :: "rpc list"
  log :: "log_entry list"

type_synonym 'a io = "world \<Rightarrow> (py_error + 'a) \<times> world"

definition io_return :: "'a \<Rightarrow> 'a io" where
  "io_return x w = (Inr x, w)"

definition io_raise :: "py_error \<Rightarrow> 'a io" where
  "io_raise e w = (Inl e, w)"

definition io_lift :: "py_error + 'a \<Rightarrow> 'a io" where
  "io_lift r w = (r, w)"

definition io_bind :: "'a io \<Rightarrow> ('a \<Rightarrow> 'b io) \<Rightarrow> 'b io" where
  "io_bind m f w = (case m w of (Inl e, w') \<Rightarrow> (Inl e, w') | (Inr x, w') \<Rightarrow> f x w')"

definition io_try :: "'a io \<Rightarrow> (py_error \<Rightarrow> 'a io) \<Rightarrow> 'a io" where
  "io_try m handler w = (case m w of (Inl e, w') \<Rightarrow> handler e w' | (Inr x, w') \<Rightarrow> (Inr x, w'))"

definition logger :: "log_entry \<Rightarrow> unit io" where
  "logger entry w = (Inr (), w\<lparr>log := log w @ [entry]\<rparr>)"

text \<open>A request is recorded, then fails in transport or answers from the chain state.\<close>

definition request :: "rpc \<Rightarrow> (world \<Rightarrow> 'a) \<Rightarrow> 'a io" where
  "request r answer w =
     (let w' = w\<lparr>rpc_log := rpc_log w @ [r]\<rparr>
      in if down w r then (Inl (TransportError ''request failed''), w') else (Inr (answer w), w'))"

definition get_balance :: "int io" where
  "get_balance = request Get_balance (\<lambda>w. int (eth_balance w))"

definition balanceOf :: "int io" where
  "balanceOf = request BalanceOf (\<lambda>w. int (usdc_balance w))"

definition allowance_call :: "int io" where
  "allowance_call = request Allowance (\<lambda>w. uint (allowance w))"

text \<open>
  \<^verbatim>\<open>get_transaction_count(address, block_identifier=None)\<close>: without a block identifier
  the client uses its \<open>default_block\<close>, which is \<open>latest\<close> unless assigned, and the code
  never assigns it. The \<open>latest\<close> count is the number of transactions in blocks, the
  \<open>pending\<close> count adds the submitted ones that are not.
\<close>

definition default_block :: block_id where
  "default_block = Latest"

definition transaction_count :: "world \<Rightarrow> block_id \<Rightarrow> nat" where
  "transaction_count w b =
     (case b of Latest \<Rightarrow> confirmed_count w | Pending \<Rightarrow> confirmed_count w + length (mempool w))"

definition get_transaction_count :: "block_id option \<Rightarrow> nat io" where
  "get_transaction_count block_identifier =
     (let b = (case block_identifier of None \<Rightarrow> default_block | Some b \<Rightarrow> b)
      in request (Get_transaction_count b) (\<lambda>w. transaction_count w b))"

definition get_gas_price :: "int io" where
  "get_gas_price = request Gas_price (\<lambda>w. int (gas_price w))"

definition get_max_priority_fee :: "int io" where
  "get_max_priority_fee = request Max_priority_fee (\<lambda>w. int (max_priority_fee w))"

definition get_block_number :: "int io" where
  "get_block_number = request Block_number block_number"

text \<open>
  \<^verbatim>\<open>get_transaction_receipt\<close>: the client the package requires (\<^verbatim>\<open>web3>=6.4.0\<close> in
  \<^verbatim>\<open>setup.py\<close>) raises \<open>TransactionNotFound\<close> for a transaction that has no receipt; it
  never answers \<open>None\<close>. The result stays optional because \<open>get_transaction_status\<close>
  tests it for \<open>None\<close>.
\<close>

definition get_transaction_receipt :: "string \<Rightarrow> receipt option io" where
  "get_transaction_receipt tx_hash w =
     (let w' = w\<lparr>rpc_log := rpc_log w @ [Get_transaction_receipt tx_hash]\<rparr>
      in if down w (Get_transaction_receipt tx_hash)
         then (Inl (TransportError ''request failed''), w')
         else case receipts w tx_hash of
                None \<Rightarrow>
                  (Inl (TransactionNotFound (''Transaction with hash: '' @ [CHR 0x27] @ tx_hash @
                                              [CHR 0x27] @ '' not found.'')), w')
              | Some rc \<Rightarrow> (Inr (Some rc), w'))"

definition send_raw_transaction :: "transaction \<Rightarrow> 256 word io" where
  "send_raw_transaction tx w =
     (let w' = w\<lparr>rpc_log := rpc_log w @ [Send_raw_transaction tx]\<rparr>
      in if down w (Send_raw_transaction tx) then (Inl (TransportError ''request failed''), w')
         else (Inr (keccak w tx), w'\<lparr>mempool := mempool w @ [tx]\<rparr>))"

text \<open>
  Including a transaction in block \<open>b\<close>: it gets a receipt, and a successful
  \<open>approve\<close> of Permit2 sets the allowance. (What a swap does to the balances is the
  exchange's business and is left out.)
\<close>

definition include_tx :: "int \<Rightarrow> transaction \<Rightarrow> world \<Rightarrow> world" where
  "include_tx b tx w =
     (let ok = tx_succeeds w tx;
          rc = \<lparr>r_status = (if ok then 1 else 0), r_blockNumber = b, r_gasUsed = tx_gas tx\<rparr>;
          w1 = w\<lparr>receipts := (receipts w)(to_hex (keccak w tx) \<mapsto> rc),
                  confirmed_count := Suc (confirmed_count w)\<rparr>
      in case tx_data tx of
           Approve spender value \<Rightarrow>
             if ok \<and> tx_to tx = USDC_ADDRESS \<and> spender = permit2_address
             then w1\<lparr>allowance := word_of_int value\<rparr> else w1
         | Execute cs d \<Rightarrow> w1)"

definition mine_block :: "world \<Rightarrow> world" where
  "mine_block w =
     (let b = block_number w + 1
      in (fold (include_tx b) (mempool w) w)\<lparr>mempool := [], block_number := b\<rparr>)"

text \<open>
  \<^verbatim>\<open>wait_for_transaction_receipt(tx_hash, timeout=120)\<close> polls until the receipt is there
  or the timeout has passed, and then raises \<open>TimeExhausted\<close>.
\<close>

definition time_exhausted_message :: "string \<Rightarrow> string" where
  "time_exhausted_message tx_hash =
     ''Transaction HexBytes('' @ [CHR 0x27] @ tx_hash @ [CHR 0x27] @
     '') is not in the chain after 120 seconds''"

definition wait_for_transaction_receipt :: "string \<Rightarrow> receipt io" where
  "wait_for_transaction_receipt tx_hash w =
     (let w' = w\<lparr>rpc_log := rpc_log w @ [Wait_for_transaction_receipt tx_hash]\<rparr>
      in if down w (Wait_for_transaction_receipt tx_hash)
         then (Inl (TransportError ''request failed''), w')
         else let w'' = (if miner_active w then mine_block w' else w')
              in case receipts w'' tx_hash of
                   Some rc \<Rightarrow> (Inr rc, w'')
                 | None \<Rightarrow>
                     (Inl (TimeExhausted (time_exhausted_message tx_hash)), w''))"

definition get_default_deadline :: "world \<Rightarrow> nat" where
  "get_default_deadline w = now w + 180"

section \<open>The swap services\<close>

text \<open>
  What a service instance holds besides its RPC handle: the signer's address and the
  USDC decimals read from the token contract by the constructor.
\<close>

record service =
  account :: string
  usdc_decimals :: nat

text \<open>A decimal literal denotes the float nearest to it.\<close>

definition float_literal :: "real \<Rightarrow> pyfloat" where
  "float_literal q = round64 q"

text \<open>
  \<open>get_eth_balance\<close>: \<^verbatim>\<open>from_wei\<close> gives the exact decimal \<open>wei / 10 ^ 18\<close>, and \<^verbatim>\<open>float\<close>
  rounds it once. \<open>get_usdc_balance\<close> divides two integers.
\<close>

definition get_eth_balance :: "pyfloat io" where
  "get_eth_balance = io_bind get_balance (\<lambda>wei_balance. io_lift (int_truediv wei_balance (10 ^ 18)))"

definition get_usdc_balance :: "service \<Rightarrow> pyfloat io" where
  "get_usdc_balance self =
     io_bind balanceOf (\<lambda>usdc_balance_raw.
       io_lift (int_truediv usdc_balance_raw (10 ^ usdc_decimals self)))"

text \<open>
  The rate source is \<^verbatim>\<open>services.llm_service.get_eth_price\<close>, imported inside the \<open>try\<close>.
  An import that fails makes no request.
\<close>

definition fetch_price_call :: "pyfloat io" where
  "fetch_price_call w =
     (case fetch_price w of
        Returns p \<Rightarrow> (Inr p, w\<lparr>rpc_log := rpc_log w @ [Fetch_price]\<rparr>)
      | Raises (ImportError m) \<Rightarrow> (Inl (ImportError m), w)
      | Raises e \<Rightarrow> (Inl e, w\<lparr>rpc_log := rpc_log w @ [Fetch_price]\<rparr>))"

definition get_eth_price :: "pyfloat io" where
  "get_eth_price =
     io_try fetch_price_call
       (\<lambda>e. io_bind (logger (LogWarning (''Failed to get ETH price from LLM service: '' @ error_message e)))
          (\<lambda>_. io_return (Fin 3000)))"

text \<open>The log texts leave out the formatted numbers.\<close>

definition estimate_usdc_output :: "pyfloat \<Rightarrow> pyfloat \<Rightarrow> (pyfloat \<times> pyfloat) io" where
  "estimate_usdc_output eth_amount slippage =
     io_try
       (io_bind get_eth_price (\<lambda>eth_price.
          let estimated_usdc = float_mul eth_amount eth_price;
              min_usdc_output = float_mul estimated_usdc (float_sub (Fin 1) slippage)
          in io_bind (logger (LogInfo ''Estimated ETH -> USDC''))
               (\<lambda>_. io_return (estimated_usdc, min_usdc_output))))
       (\<lambda>e. io_bind (logger (LogError (''Error estimating USDC output: '' @ error_message e)))
          (\<lambda>_. io_raise (BlockchainError (''Failed to estimate USDC output: '' @ error_message e))))"

definition estimate_eth_output :: "pyfloat \<Rightarrow> pyfloat \<Rightarrow> (pyfloat \<times> pyfloat) io" where
  "estimate_eth_output usdc_amount slippage =
     io_try
       (io_bind get_eth_price (\<lambda>eth_price.
          io_bind (io_lift (float_truediv usdc_amount eth_price)) (\<lambda>estimated_eth.
            let min_eth_output = float_mul estimated_eth (float_sub (Fin 1) slippage)
            in io_bind (logger (LogInfo ''Estimated USDC -> ETH''))
                 (\<lambda>_. io_return (estimated_eth, min_eth_output)))))
       (\<lambda>e. io_bind (logger (LogError (''Error estimating ETH output: '' @ error_message e)))
          (\<lambda>_. io_raise (BlockchainError (''Failed to estimate ETH output: '' @ error_message e))))"

text \<open>\<^verbatim>\<open>int(x * n)\<close> for a float \<open>x\<close> and an integer \<open>n\<close>.\<close>

definition int_of_scaled :: "pyfloat \<Rightarrow> int \<Rightarrow> py_error + int" where
  "int_of_scaled x n =
     (case float_of_int n of Inl e \<Rightarrow> Inl e | Inr f \<Rightarrow> py_int (float_mul x f))"

text \<open>\<^verbatim>\<open>int(n * x)\<close> for an integer \<open>n\<close> and a float \<open>x\<close>.\<close>

definition int_of_product :: "int \<Rightarrow> pyfloat \<Rightarrow> py_error + int" where
  "int_of_product n x =
     (case float_of_int n of Inl e \<Rightarrow> Inl e | Inr f \<Rightarrow> py_int (float_mul f x))"

record eth_usdc_result =
  eu_transaction_hash :: string
  eu_eth_amount :: pyfloat
  eu_estimated_usdc :: pyfloat
  eu_min_usdc_output :: pyfloat
  eu_status :: string

text \<open>The steps of \<open>swap_eth_to_usdc\<close> from the nonce query on.\<close>

definition submit_eth_swap ::
  "service \<Rightarrow> int \<Rightarrow> pyfloat \<Rightarrow> int \<Rightarrow> call_data \<Rightarrow> string io" where
  "submit_eth_swap self gas_limit priority_fee_multiplier amount_in_wei encoded_input =
     io_bind (get_transaction_count None) (\<lambda>nonce.
     io_bind get_gas_price (\<lambda>base_fee.
     io_bind get_max_priority_fee (\<lambda>priority_fee.
     io_bind (io_lift (int_of_product priority_fee priority_fee_multiplier)) (\<lambda>max_priority_fee.
     let max_fee = base_fee * 2;
         tx_params = \<lparr>tx_from = account self, tx_to = UNIVERSAL_ROUTER_ADDRESS,
                      tx_gas = gas_limit, tx_max_priority_fee = max_priority_fee,
                      tx_max_fee = max_fee, tx_type = Some ''0x2'',
                      tx_chain_id = BASE_CHAIN_ID,
                      tx_value = amount_in_wei, tx_nonce = nonce, tx_data = encoded_input\<rparr> in
     io_bind (io_lift (sign_transaction tx_params)) (\<lambda>signed_tx.
     io_bind (send_raw_transaction signed_tx) (\<lambda>tx_hash.
     let tx_hash_hex = to_hex tx_hash in
     io_bind (logger (LogInfo (''ETH to USDC swap transaction sent: '' @ tx_hash_hex))) (\<lambda>_.
     io_return tx_hash_hex)))))))"

definition encode_eth_swap :: "int \<Rightarrow> int \<Rightarrow> call_data io" where
  "encode_eth_swap amount_in_wei min_amount_out w =
     (let path = [WETH_ADDRESS, USDC_ADDRESS]
      in (build (get_default_deadline w)
            (v2_swap_exact_in SENDER amount_in_wei min_amount_out path False
              (wrap_eth ROUTER amount_in_wei chain)), w))"

definition swap_eth_to_usdc ::
  "service \<Rightarrow> pyfloat \<Rightarrow> pyfloat \<Rightarrow> int \<Rightarrow> pyfloat \<Rightarrow> eth_usdc_result io" where
  "swap_eth_to_usdc self eth_amount slippage gas_limit priority_fee_multiplier =
     io_try
       (io_bind (if float_le eth_amount (Fin 0)
                 then io_raise (ValueError ''ETH amount must be greater than 0'')
                 else io_return ()) (\<lambda>_.
        io_bind get_eth_balance (\<lambda>eth_balance.
        io_bind (if float_gt eth_amount eth_balance
                 then io_raise (ValueError ''Insufficient ETH balance'')
                 else io_return ()) (\<lambda>_.
        io_bind (\<lambda>w. (to_wei w eth_amount, w)) (\<lambda>amount_in_wei.
        io_bind (estimate_usdc_output eth_amount slippage) (\<lambda>quote.
        let min_usdc_output = snd quote in
        io_bind (io_lift (int_of_scaled min_usdc_output (10 ^ usdc_decimals self))) (\<lambda>min_amount_out.
        io_bind (encode_eth_swap amount_in_wei min_amount_out) (\<lambda>encoded_input.
        io_bind (submit_eth_swap self gas_limit priority_fee_multiplier amount_in_wei encoded_input)
          (\<lambda>tx_hash_hex.
        io_bind (io_lift (float_truediv min_usdc_output (float_sub (Fin 1) slippage))) (\<lambda>estimated.
        io_return \<lparr>eu_transaction_hash = tx_hash_hex, eu_eth_amount = eth_amount,
                    eu_estimated_usdc = estimated, eu_min_usdc_output = min_usdc_output,
                    eu_status = ''pending''\<rparr>))))))))))
       (\<lambda>e. io_bind (logger (LogError (''Error executing ETH to USDC swap: '' @ error_message e)))
          (\<lambda>_. io_raise (BlockchainError (''Failed to swap ETH to USDC: '' @ error_message e))))"

text \<open>
  \<open>ensure_permit2_approval\<close> of \<open>USDCETHSwapService\<close>; \<open>approve_permit2\<close> is its part
  after the allowance check.
\<close>

definition approve_permit2 :: "service \<Rightarrow> string io" where
  "approve_permit2 self =
     io_bind (get_transaction_count (Some Pending)) (\<lambda>nonce.
     io_bind get_max_priority_fee (\<lambda>priority_fee.
     io_bind get_gas_price (\<lambda>base_fee.
     let approve_tx = \<lparr>tx_from = account self, tx_to = USDC_ADDRESS, tx_gas = 100000,
                       tx_max_priority_fee = priority_fee * 2, tx_max_fee = base_fee * 3,
                       tx_type = None, tx_chain_id = BASE_CHAIN_ID, tx_value = 0, tx_nonce = nonce,
                       tx_data = Approve permit2_address MAX_UINT256\<rparr> in
     io_bind (io_lift (sign_transaction approve_tx)) (\<lambda>signed_tx.
     io_bind (send_raw_transaction signed_tx) (\<lambda>tx_hash.
     let tx_hash_hex = to_hex tx_hash in
     io_bind (logger (LogInfo (''Permit2 approval transaction sent: '' @ tx_hash_hex))) (\<lambda>_.
     io_bind (wait_for_transaction_receipt tx_hash_hex) (\<lambda>_.
     io_return tx_hash_hex)))))))"

definition ensure_permit2_approval :: "service \<Rightarrow> string io" where
  "ensure_permit2_approval self =
     (let permit2_allowance_needed = MAX_UINT256 in
      io_try
        (io_bind allowance_call (\<lambda>current_allowance.
           if permit2_allowance_needed \<le> current_allowance
           then io_bind (logger (LogInfo ''Permit2 already approved for USDC'')) (\<lambda>_. io_return [])
           else approve_permit2 self))
        (\<lambda>e. io_bind (logger (LogError (''Error approving Permit2 for USDC: '' @ error_message e)))
           (\<lambda>_. io_raise (BlockchainError (''Failed to approve Permit2: '' @ error_message e)))))"

record usdc_eth_result =
  ue_transaction_hash :: string
  ue_approval_hash :: string
  ue_usdc_amount :: pyfloat
  ue_estimated_eth :: pyfloat
  ue_min_eth_output :: pyfloat
  ue_status :: string

definition encode_usdc_swap :: "int \<Rightarrow> int \<Rightarrow> call_data io" where
  "encode_usdc_swap amount_in_usdc_units min_amount_out w =
     (let path = [USDC_ADDRESS, WETH_ADDRESS]
      in (build (get_default_deadline w)
            (unwrap_weth SENDER 0
              (v2_swap_exact_in SENDER amount_in_usdc_units min_amount_out path True chain)), w))"

definition submit_usdc_swap :: "service \<Rightarrow> int \<Rightarrow> pyfloat \<Rightarrow> call_data \<Rightarrow> string io" where
  "submit_usdc_swap self gas_limit priority_fee_multiplier encoded_input =
     io_bind (get_transaction_count (Some Pending)) (\<lambda>nonce.
     io_bind get_gas_price (\<lambda>base_fee.
     io_bind get_max_priority_fee (\<lambda>priority_fee.
     io_bind (io_lift (int_of_product priority_fee priority_fee_multiplier)) (\<lambda>max_priority_fee.
     let max_fee = base_fee * 2;
         tx_params = \<lparr>tx_from = account self, tx_to = UNIVERSAL_ROUTER_ADDRESS,
                      tx_gas = gas_limit, tx_max_priority_fee = max_priority_fee,
                      tx_max_fee = max_fee, tx_type = Some ''0x2'',
                      tx_chain_id = BASE_CHAIN_ID,
                      tx_value = 0, tx_nonce = nonce, tx_data = encoded_input\<rparr> in
     io_bind (io_lift (sign_transaction tx_params)) (\<lambda>signed_tx.
     io_bind (send_raw_transaction signed_tx) (\<lambda>tx_hash.
     let tx_hash_hex = to_hex tx_hash in
     io_bind (logger (LogInfo (''USDC to ETH swap transaction sent: '' @ tx_hash_hex))) (\<lambda>_.
     io_return tx_hash_hex)))))))"

definition swap_usdc_to_eth ::
  "service \<Rightarrow> pyfloat \<Rightarrow> pyfloat \<Rightarrow> int \<Rightarrow> pyfloat \<Rightarrow> bool \<Rightarrow> usdc_eth_result io" where
  "swap_usdc_to_eth self usdc_amount slippage gas_limit priority_fee_multiplier wait_for_approval =
     io_try
       (io_bind (if float_le usdc_amount (Fin 0)
                 then io_raise (ValueError ''USDC amount must be greater than 0'')
                 else io_return ()) (\<lambda>_.
        io_bind (get_usdc_balance self) (\<lambda>usdc_balance.
        io_bind (if float_gt usdc_amount usdc_balance
                 then io_raise (ValueError ''Insufficient USDC balance'')
                 else io_return ()) (\<lambda>_.
        io_bind (io_lift (int_of_scaled usdc_amount (10 ^ usdc_decimals self))) (\<lambda>amount_in_usdc_units.
        io_bind (ensure_permit2_approval self) (\<lambda>approval_tx.
        io_bind (if approval_tx \<noteq> [] \<and> wait_for_approval
                 then io_bind (logger (LogInfo (''Waiting for USDC approval transaction: '' @ approval_tx)))
                        (\<lambda>_. io_bind (wait_for_transaction_receipt approval_tx) (\<lambda>_. io_return ()))
                 else io_return ()) (\<lambda>_.
        io_bind (estimate_eth_output usdc_amount slippage) (\<lambda>quote.
        let min_eth_output = snd quote in
        io_bind (io_lift (int_of_scaled min_eth_output (10 ^ 18))) (\<lambda>min_amount_out.
        io_bind (encode_usdc_swap amount_in_usdc_units min_amount_out) (\<lambda>encoded_input.
        io_bind (submit_usdc_swap self gas_limit priority_fee_multiplier encoded_input) (\<lambda>tx_hash_hex.
        io_bind (io_lift (float_truediv min_eth_output (float_sub (Fin 1) slippage))) (\<lambda>estimated.
        io_return \<lparr>ue_transaction_hash = tx_hash_hex, ue_approval_hash = approval_tx,
                    ue_usdc_amount = usdc_amount, ue_estimated_eth = estimated,
                    ue_min_eth_output = min_eth_output, ue_status = ''pending''\<rparr>))))))))))))
       (\<lambda>e. io_bind (logger (LogError (''Error executing USDC to ETH swap: '' @ error_message e)))
          (\<lambda>_. io_raise (BlockchainError (''Failed to swap USDC to ETH: '' @ error_message e))))"

text \<open>\<open>get_transaction_status\<close>, the same in both services.\<close>

record tx_status =
  ts_status :: string
  ts_confirmations :: int
  ts_transaction_hash :: "string option"
  ts_block_number :: "int option"
  ts_gas_used :: "int option"

definition status_of :: "receipt \<Rightarrow> int \<Rightarrow> string" where
  "status_of rc confirmations =
     (if r_status rc = 1
      then (if 1 \<le> confirmations then ''confirmed'' else ''pending_confirmation'')
      else ''failed'')"

definition get_transaction_status :: "string \<Rightarrow> tx_status io" where
  "get_transaction_status tx_hash =
     io_try
       (io_bind (get_transaction_receipt tx_hash) (\<lambda>rcpt.
          case rcpt of
            None \<Rightarrow> io_return \<lparr>ts_status = ''pending'', ts_confirmations = 0,
                                 ts_transaction_hash = None, ts_block_number = None,
                                 ts_gas_used = None\<rparr>
          | Some rc \<Rightarrow>
              io_bind get_block_number (\<lambda>current_block.
                let confirmations = current_block - r_blockNumber rc;
                    status = status_of rc confirmations
                in io_return \<lparr>ts_status = status, ts_confirmations = confirmations,
                               ts_transaction_hash = Some tx_hash,
                               ts_block_number = Some (r_blockNumber rc),
                               ts_gas_used = Some (r_gasUsed rc)\<rparr>)))
       (\<lambda>e. io_bind (logger (LogError (''Error checking transaction status for '' @ tx_hash @ '': '' @ error_message e)))
          (\<lambda>_. io_raise (BlockchainError (''Failed to check transaction status: '' @ error_message e))))"

section \<open>The swap agents\<close>

text \<open>\<open>EthToUsdcAgent.swap_eth_to_usdc\<close>, with its own fixed rate and slippage.\<close>

definition agent_submit_eth_swap :: "service \<Rightarrow> int \<Rightarrow> call_data \<Rightarrow> string io" where
  "agent_submit_eth_swap self amount_in_wei encoded_input =
     io_bind (get_transaction_count None) (\<lambda>nonce.
     io_bind get_max_priority_fee (\<lambda>priority_fee.
     io_bind get_gas_price (\<lambda>base_fee.
     let tx_params = \<lparr>tx_from = account self, tx_to = UNIVERSAL_ROUTER_ADDRESS,
                      tx_gas = 500000, tx_max_priority_fee = priority_fee,
                      tx_max_fee = base_fee * 2, tx_type = Some ''0x2'',
                      tx_chain_id = BASE_CHAIN_ID,
                      tx_value = amount_in_wei, tx_nonce = nonce, tx_data = encoded_input\<rparr> in
     io_bind (io_lift (sign_transaction tx_params)) (\<lambda>signed_tx.
     io_bind (send_raw_transaction signed_tx) (\<lambda>tx_hash.
     io_bind (logger (LogInfo (''ETH to USDC swap transaction sent: '' @ to_hex tx_hash))) (\<lambda>_.
     io_return (to_hex tx_hash)))))))"

definition agent_swap_eth_to_usdc :: "service \<Rightarrow> pyfloat \<Rightarrow> string io" where
  "agent_swap_eth_to_usdc self amount =
     io_try
       (io_bind (io_lift (int_of_scaled amount (10 ^ 18))) (\<lambda>amount_in_wei.
        let estimated_usdc_amount = float_mul amount (Fin 2500) in
        io_bind (io_lift (int_of_scaled (float_mul estimated_usdc_amount (float_literal (99 / 100)))
                            (10 ^ 6))) (\<lambda>min_amount_out.
        io_bind (encode_eth_swap amount_in_wei min_amount_out) (\<lambda>encoded_input.
        agent_submit_eth_swap self amount_in_wei encoded_input))))
       (\<lambda>e. io_bind (logger (LogError (''Error executing ETH to USDC swap: '' @ error_message e)))
          (\<lambda>_. io_raise (BlockchainError (''Failed to swap ETH to USDC: '' @ error_message e))))"

text \<open>
  \<open>UsdcToEthAgent.ensure_permit2_approval\<close>: as the service's, except that the allowance
  is read outside the \<open>try\<close>.
\<close>

definition agent_ensure_permit2_approval :: "service \<Rightarrow> string io" where
  "agent_ensure_permit2_approval self =
     (let permit2_allowance_needed = MAX_UINT256 in
      io_bind allowance_call (\<lambda>current_allowance.
        if permit2_allowance_needed \<le> current_allowance
        then io_bind (logger (LogInfo ''Permit2 already approved for USDC'')) (\<lambda>_. io_return [])
        else io_try (approve_permit2 self)
               (\<lambda>e. io_bind (logger (LogError (''Error approving Permit2 for USDC: '' @ error_message e)))
                  (\<lambda>_. io_raise (BlockchainError (''Failed to approve Permit2: '' @ error_message e))))))"

section \<open>A concrete world\<close>

text \<open>
  An account with 2 ETH and 5000 USDC that has given Permit2 no allowance, seven
  transactions in blocks and none pending; no request fails, no block is produced
  while a receipt is awaited, and the rate source is the repository's
  \<^verbatim>\<open>services/llm_service.py\<close>, which defines no \<open>get_eth_price\<close>.
\<close>

definition example_service :: service where
  "example_service = \<lparr>account = ''0x00000000000000000000000000000000000000A1'', usdc_decimals = 6\<rparr>"

definition llm_service_fetch_price :: fetch_result where
  "llm_service_fetch_price = Raises (ImportError ''cannot import name get_eth_price'')"

definition example_world :: world where
  "example_world =
     \<lparr>eth_balance = 2000000000000000000, usdc_balance = 5000000000, allowance = 0,
      confirmed_count = 7, mempool = [], block_number = 100, receipts = (\<lambda>h. None),
      gas_price = 10, max_priority_fee = 2, miner_active = False,
      tx_succeeds = (\<lambda>tx. True), down = (\<lambda>r. False),
      keccak = (\<lambda>tx. of_nat (Suc (tx_nonce tx))),
      to_wei = (\<lambda>x. case x of Fin a \<Rightarrow> Inr \<lfloor>a * 10 ^ 18\<rfloor>
                             | _ \<Rightarrow> Inl (ValueError ''cannot convert to wei'')),
      now = 1000, fetch_price = llm_service_fetch_price, rpc_log = [], log = []\<rparr>"

definition example_receipt :: receipt where
  "example_receipt = \<lparr>r_status = 1, r_blockNumber = 98, r_gasUsed = 21000\<rparr>"

text \<open>The same world with one transaction of the account submitted and not yet in a block.\<close>

definition example_pending_tx :: transaction where
  "example_pending_tx =
     \<lparr>tx_from = account example_service, tx_to = USDC_ADDRESS, tx_gas = 100000,
      tx_max_priority_fee = 4, tx_max_fee = 30, tx_type = None, tx_chain_id = BASE_CHAIN_ID,
      tx_value = 0,
      tx_nonce = 7, tx_data = Approve permit2_address MAX_UINT256\<rparr>"

definition pending_world :: world where
  "pending_world = example_world\<lparr>mempool := [example_pending_tx]\<rparr>"

text \<open>Two worlds that differ at most in what has been requested and logged.\<close>

definition same_chain :: "world \<Rightarrow> world \<Rightarrow> bool" where
  "same_chain w w' = (\<exists>rl lg. w' = w\<lparr>rpc_log := rl, log := lg\<rparr>)"

text \<open>The approval transaction that \<open>approve_permit2\<close> builds in world \<open>w\<close> with nonce \<open>n\<close>.\<close>

definition approval_tx :: "service \<Rightarrow> world \<Rightarrow> nat \<Rightarrow> transaction" where
  "approval_tx self w n =
     \<lparr>tx_from = account self, tx_to = USDC_ADDRESS, tx_gas = 100000,
      tx_max_priority_fee = int (max_priority_fee w) * 2, tx_max_fee = int (gas_price w) * 3,
      tx_type = None, tx_chain_id = BASE_CHAIN_ID, tx_value = 0, tx_nonce = n,
      tx_data = Approve permit2_address MAX_UINT256\<rparr>"

text \<open>The world after \<open>approve_permit2\<close> has sent transaction \<open>tx\<close> and logged it.\<close>

definition after_approval_sent :: "world \<Rightarrow> transaction \<Rightarrow> world" where
  "after_approval_sent w tx =
     w\<lparr>rpc_log := rpc_log w @ [Get_transaction_count Pending, Max_priority_fee, Gas_price,
                                  Send_raw_transaction tx],
       mempool := mempool w @ [tx],
       log := log w @ [LogInfo (''Permit2 approval transaction sent: '' @ to_hex (keccak w tx))]\<rparr>"

text \<open>Two worlds that agree on what the ledger answers, whatever is pending or logged.\<close>

definition same_ledger :: "world \<Rightarrow> world \<Rightarrow> bool" where
  "same_ledger w w' =
     (down w' = down w \<and> miner_active w' = miner_active w \<and> allowance w' = allowance w \<and>
      receipts w' = receipts w \<and> keccak w' = keccak w \<and> gas_price w' = gas_price w \<and>
      max_priority_fee w' = max_priority_fee w \<and> confirmed_count w' = confirmed_count w)"

section \<open>Properties\<close>

subsection \<open>Rounding to binary64\<close>

lemma pow2_powr: "pow2 e = 2 powr (real_of_int e)"
  by (simp add: pow2_def powr_int)

lemma pow2_pos [simp]: "0 < pow2 e"
  by (simp add: pow2_powr)

lemma pow2_nonneg [simp]: "0 \<le> pow2 e"
  by (simp add: pow2_powr)

lemma pow2_neq_0 [simp]: "pow2 e \<noteq> 0"
  using pow2_pos [of e] by linarith

lemma pow2_not_le_0 [simp]: "\<not> pow2 e \<le> 0"
  using pow2_pos [of e] by linarith

lemma pow2_add: "pow2 (a + b) = pow2 a * pow2 b"
  by (simp add: pow2_powr powr_add)

lemma pow2_diff: "pow2 (a - b) = pow2 a / pow2 b"
  by (simp add: pow2_powr powr_diff)

lemma pow2_le_iff [simp]: "pow2 a \<le> pow2 b \<longleftrightarrow> a \<le> b"
  by (simp add: pow2_powr)

lemma pow2_less_iff [simp]: "pow2 a < pow2 b \<longleftrightarrow> a < b"
  by (simp add: pow2_powr)

lemma pow2_nat: "pow2 (int n) = 2 ^ n"
  by (simp add: pow2_def)

lemma pow2_0 [simp]: "pow2 0 = 1"
  by (simp add: pow2_def)

lemma of_int_le_two_power: "(n::int) \<le> 2 ^ k \<Longrightarrow> real_of_int n \<le> 2 ^ k"
  using of_int_le_iff [of n "2 ^ k", where 'a = real] by simp

lemma two_power_le_of_int: "2 ^ k \<le> (n::int) \<Longrightarrow> 2 ^ k \<le> real_of_int n"
  using of_int_le_iff [of "2 ^ k" n, where 'a = real] by simp

lemma ilog2_bounds:
  assumes "0 < q"
  shows "pow2 (ilog2 q) \<le> q" and "q < pow2 (ilog2 q + 1)"
proof -
  show "pow2 (ilog2 q) \<le> q"
  proof (cases "1 \<le> q")
    case True
    then have n: "0 < \<lfloor>q\<rfloor>" by simp
    from bitlen_bounds [OF n] have "2 ^ nat (bitlen \<lfloor>q\<rfloor> - 1) \<le> \<lfloor>q\<rfloor>" by simp
    from two_power_le_of_int [OF this] have "2 ^ nat (bitlen \<lfloor>q\<rfloor> - 1) \<le> q"
      by linarith
    moreover have "0 \<le> bitlen \<lfloor>q\<rfloor> - 1"
      using n by (simp add: bitlen_alt_def)
    ultimately show ?thesis using True by (simp add: ilog2_def pow2_def)
  next
    case False
    let ?n = "\<lceil>1 / q\<rceil>"
    let ?k = "bitlen (?n - 1)"
    from False assms have x: "1 < 1 / q" by simp
    then have n: "0 < ?n - 1" by (simp add: less_ceiling_iff)
    from bitlen_bounds [OF n] have "?n - 1 < 2 ^ nat ?k" by simp
    then have "?n \<le> 2 ^ nat ?k" by simp
    from of_int_le_two_power [OF this] have "1 / q \<le> 2 ^ nat ?k"
      using le_of_int_ceiling [of "1 / q"] by linarith
    then have "1 / 2 ^ nat ?k \<le> q"
      using assms by (simp add: field_simps)
    moreover have "1 \<le> ?k" using n by (simp add: bitlen_alt_def)
    ultimately show ?thesis using False by (simp add: ilog2_def pow2_def)
  qed
  show "q < pow2 (ilog2 q + 1)"
  proof (cases "1 \<le> q")
    case True
    then have n: "0 < \<lfloor>q\<rfloor>" by simp
    have b: "1 \<le> bitlen \<lfloor>q\<rfloor>" using n by (simp add: bitlen_alt_def)
    from bitlen_bounds [OF n] have "\<lfloor>q\<rfloor> < 2 ^ nat (bitlen \<lfloor>q\<rfloor>)" by simp
    then have "\<lfloor>q\<rfloor> + 1 \<le> 2 ^ nat (bitlen \<lfloor>q\<rfloor>)" by simp
    from of_int_le_two_power [OF this] have "q < 2 ^ nat (bitlen \<lfloor>q\<rfloor>)"
      by linarith
    then show ?thesis using True b by (simp add: ilog2_def pow2_def)
  next
    case False
    let ?n = "\<lceil>1 / q\<rceil>"
    let ?k = "bitlen (?n - 1)"
    from False assms have x: "1 < 1 / q" by simp
    then have n: "0 < ?n - 1" by (simp add: less_ceiling_iff)
    have k: "1 \<le> ?k" using n by (simp add: bitlen_alt_def)
    from bitlen_bounds [OF n] have "2 ^ nat (?k - 1) \<le> ?n - 1" by simp
    from two_power_le_of_int [OF this] have "2 ^ nat (?k - 1) < 1 / q"
      by linarith
    then have "q < 1 / 2 ^ nat (?k - 1)"
      using assms by (simp add: field_simps)
    moreover have "- ?k + 1 \<le> 0" using k by simp
    ultimately show ?thesis using False k
      by (simp add: ilog2_def pow2_def nat_diff_distrib)
  qed
qed

lemma ilog2_unique:
  assumes "pow2 e \<le> q" "q < pow2 (e + 1)"
  shows "ilog2 q = e"
proof -
  have q: "0 < q" using assms(1) pow2_pos [of e] by linarith
  from ilog2_bounds [OF q] assms have "pow2 (ilog2 q) < pow2 (e + 1)" "pow2 e < pow2 (ilog2 q + 1)"
    by linarith+
  then show ?thesis by simp
qed


lemma round_half_even_cases: "round_half_even x = \<lfloor>x\<rfloor> \<or> round_half_even x = \<lfloor>x\<rfloor> + 1"
  by (simp add: round_half_even_def Let_def)

lemma round_half_even_of_int [simp]: "round_half_even (of_int k) = k"
  by (simp add: round_half_even_def Let_def)

lemma round_half_even_ge: "of_int k \<le> x \<Longrightarrow> k \<le> round_half_even x"
  using round_half_even_cases [of x] le_floor_iff [of k x] by linarith

lemma round_half_even_le:
  assumes "x \<le> of_int k"
  shows "round_half_even x \<le> k"
proof (cases "x = of_int k")
  case True
  then show ?thesis by simp
next
  case False
  with assms have "x < of_int k" by simp
  then have "\<lfloor>x\<rfloor> < k" by (simp add: floor_less_iff)
  then show ?thesis using round_half_even_cases [of x] by linarith
qed

lemma round_half_even_mono:
  assumes "x \<le> y"
  shows "round_half_even x \<le> round_half_even y"
proof (cases "\<lfloor>x\<rfloor> = \<lfloor>y\<rfloor>")
  case True
  then show ?thesis
    using assms by (simp add: round_half_even_def Let_def)
next
  case False
  with assms have "\<lfloor>x\<rfloor> < \<lfloor>y\<rfloor>" using floor_mono [OF assms] by linarith
  then show ?thesis
    using round_half_even_cases [of x] round_half_even_cases [of y] by linarith
qed

lemma exponent_of_ge: "- 1022 \<le> exponent_of q"
  by (simp add: exponent_of_def)

lemma exponent_of_abs [simp]: "exponent_of \<bar>q\<bar> = exponent_of q"
  by (simp add: exponent_of_def)

lemma nearest_abs [simp]: "nearest \<bar>q\<bar> = nearest q"
  by (simp add: nearest_def)

lemma nearest_minus [simp]: "nearest (- q) = nearest q"
  by (simp add: nearest_def exponent_of_def)

lemma below_next_binade:
  assumes "q \<noteq> 0"
  shows "\<bar>q\<bar> < pow2 (exponent_of q + 1)"
proof -
  have "0 < \<bar>q\<bar>" using assms by simp
  from ilog2_bounds(2) [OF this] have "\<bar>q\<bar> < pow2 (ilog2 \<bar>q\<bar> + 1)" .
  also have "\<dots> \<le> pow2 (exponent_of q + 1)" by (simp add: exponent_of_def)
  finally show ?thesis .
qed

lemma pow2_53: "pow2 (e + 1) / pow2 (e - 52) = 2 ^ 53"
proof -
  have "pow2 (e + 1) = pow2 (e - 52) * pow2 53"
    using pow2_add [of "e - 52" 53] by (simp add: add.commute)
  then show ?thesis by (simp add: pow2_def)
qed

lemma pow2_52: "pow2 e / pow2 (e - 52) = 2 ^ 52"
proof -
  have "pow2 e = pow2 (e - 52) * pow2 52"
    using pow2_add [of "e - 52" 52] by simp
  then show ?thesis by (simp add: pow2_def)
qed

lemma pow2_53_mult: "2 ^ 53 * pow2 (e - 52) = pow2 (e + 1)"
  using pow2_add [of "e - 52" 53] by (simp add: add.commute pow2_def [of 53])

lemma pow2_52_mult: "2 ^ 52 * pow2 (e - 52) = pow2 e"
  using pow2_add [of "e - 52" 52] by (simp add: pow2_def [of 52])

lemma nearest_0 [simp]: "nearest 0 = 0"
  by (simp add: nearest_def round_half_even_def)

lemma nearest_significand: "nearest q = of_int (significand q) * pow2 (exponent_of q - 52)"
  by (simp add: nearest_def significand_def Let_def)

lemma significand_nonneg: "0 \<le> significand q"
  unfolding significand_def by (rule round_half_even_ge) simp

lemma significand_le:
  assumes "q \<noteq> 0"
  shows "significand q \<le> 2 ^ 53"
proof -
  have "\<bar>q\<bar> / pow2 (exponent_of q - 52) < pow2 (exponent_of q + 1) / pow2 (exponent_of q - 52)"
    using below_next_binade [OF assms] by (simp add: divide_strict_right_mono)
  then have "\<bar>q\<bar> / pow2 (exponent_of q - 52) \<le> of_int (2 ^ 53)"
    by (simp add: pow2_53)
  then show ?thesis unfolding significand_def by (rule round_half_even_le)
qed

lemma significand_ge:
  assumes "q \<noteq> 0" "- 1022 \<le> ilog2 \<bar>q\<bar>"
  shows "2 ^ 52 \<le> significand q"
proof -
  have e: "exponent_of q = ilog2 \<bar>q\<bar>" using assms(2) by (simp add: exponent_of_def)
  have "0 < \<bar>q\<bar>" using assms by simp
  from ilog2_bounds(1) [OF this] have "pow2 (exponent_of q) \<le> \<bar>q\<bar>" by (simp add: e)
  then have "pow2 (exponent_of q) / pow2 (exponent_of q - 52) \<le> \<bar>q\<bar> / pow2 (exponent_of q - 52)"
    by (simp add: divide_right_mono)
  then have "of_int (2 ^ 52) \<le> \<bar>q\<bar> / pow2 (exponent_of q - 52)"
    by (simp add: pow2_52)
  then show ?thesis unfolding significand_def by (rule round_half_even_ge)
qed

lemma nearest_nonneg: "0 \<le> nearest q"
  by (simp add: nearest_significand significand_nonneg)


lemma ilog2_mono:
  assumes "0 < q1" "q1 \<le> q2"
  shows "ilog2 q1 \<le> ilog2 q2"
proof -
  have "0 < q2" using assms by linarith
  from ilog2_bounds(1) [OF assms(1)] ilog2_bounds(2) [OF this] assms(2)
  have "pow2 (ilog2 q1) < pow2 (ilog2 q2 + 1)" by linarith
  then show ?thesis by simp
qed

lemma nearest_grid:
  assumes "- 1022 \<le> e" "0 < m" "m \<le> 2 ^ 53"
  shows "nearest (of_int m * pow2 (e - 52)) = of_int m * pow2 (e - 52)"
proof (cases "m = 2 ^ 53")
  case True
  have r: "real_of_int m * pow2 (e - 52) = pow2 (e + 1)"
    using pow2_53_mult [of e] by (simp add: True)
  have "ilog2 (pow2 (e + 1)) = e + 1"
    by (rule ilog2_unique) simp_all
  then have e': "exponent_of (pow2 (e + 1)) = e + 1"
    using assms(1) by (simp add: exponent_of_def)
  have "pow2 (e + 1) / pow2 (e + 1 - 52) = of_int (2 ^ 52)"
    using pow2_52 [of "e + 1"] by simp
  then have "round_half_even (pow2 (e + 1) / pow2 (e + 1 - 52)) = 2 ^ 52"
    by (simp only: round_half_even_of_int)
  then have "nearest (pow2 (e + 1)) = 2 ^ 52 * pow2 (e + 1 - 52)"
    by (simp add: nearest_def e' Let_def)
  also have "\<dots> = pow2 (e + 1)"
    by (rule pow2_52_mult)
  finally show ?thesis by (simp add: r)
next
  case False
  define r where "r = real_of_int m * pow2 (e - 52)"
  define e' where "e' = exponent_of r"
  have pos: "0 < r" using assms(2) by (simp add: r_def)
  from False assms(3) have "m < 2 ^ 53" by simp
  then have "real_of_int m < 2 ^ 53"
    using of_int_less_iff [of m "2 ^ 53", where 'a = real] by simp
  then have "r < 2 ^ 53 * pow2 (e - 52)" by (simp add: r_def)
  also have "\<dots> = pow2 (e + 1)"
    by (rule pow2_53_mult)
  finally have "r < pow2 (e + 1)" .
  with ilog2_bounds(1) [OF pos] have "pow2 (ilog2 r) < pow2 (e + 1)" by linarith
  then have "ilog2 r \<le> e" by simp
  then have le: "e' \<le> e"
    using assms(1) pos by (simp add: exponent_of_def e'_def)
  define d where "d = nat (e - e')"
  have "e - 52 = (e' - 52) + int d"
    using le by (simp add: d_def)
  then have "pow2 (e - 52) = pow2 ((e' - 52) + int d)"
    by (rule arg_cong)
  also have "\<dots> = pow2 (e' - 52) * 2 ^ d"
    by (simp only: pow2_add pow2_nat)
  finally have split: "pow2 (e - 52) = pow2 (e' - 52) * 2 ^ d" .
  have "\<bar>r\<bar> / pow2 (e' - 52) = real_of_int m * (pow2 (e' - 52) * 2 ^ d) / pow2 (e' - 52)"
    using pos by (simp add: r_def split)
  also have "\<dots> = of_int (m * 2 ^ d)" by simp
  finally have "round_half_even (\<bar>r\<bar> / pow2 (e' - 52)) = m * 2 ^ d"
    by (simp only: round_half_even_of_int)
  then have "nearest r = of_int (m * 2 ^ d) * pow2 (e' - 52)"
    by (simp add: nearest_def Let_def e'_def)
  also have "\<dots> = real_of_int m * (pow2 (e' - 52) * 2 ^ d)" by simp
  also have "\<dots> = r" by (simp add: r_def split)
  finally show ?thesis by (simp add: r_def)
qed

lemma nearest_idem: "nearest (nearest q) = nearest q"
proof (cases "q = 0 \<or> significand q = 0")
  case True
  then have "nearest q = 0" by (elim disjE) (simp, simp add: nearest_significand)
  then show ?thesis by simp
next
  case False
  then have "0 < significand q" using significand_nonneg [of q] by linarith
  from nearest_grid [OF exponent_of_ge this significand_le] False show ?thesis
    by (simp add: nearest_significand)
qed

lemma nearest_mono:
  assumes "0 < q1" "q1 \<le> q2"
  shows "nearest q1 \<le> nearest q2"
proof -
  have q2: "0 < q2" using assms by linarith
  have e: "exponent_of q1 \<le> exponent_of q2"
    using ilog2_mono [OF assms] assms q2 by (simp add: exponent_of_def)
  show ?thesis
  proof (cases "exponent_of q1 = exponent_of q2")
    case True
    have "\<bar>q1\<bar> / pow2 (exponent_of q2 - 52) \<le> \<bar>q2\<bar> / pow2 (exponent_of q2 - 52)"
      using assms q2 by (simp add: divide_right_mono)
    from round_half_even_mono [OF this] show ?thesis
      by (simp add: nearest_def Let_def True mult_right_mono)
  next
    case False
    with e have lt: "exponent_of q1 + 1 \<le> exponent_of q2" by simp
    have "nearest q1 \<le> 2 ^ 53 * pow2 (exponent_of q1 - 52)"
      using significand_le [of q1] assms(1)
        of_int_le_iff [of "significand q1" "2 ^ 53", where 'a = real]
      by (simp add: nearest_significand mult_right_mono)
    also have "\<dots> = pow2 (exponent_of q1 + 1)"
      by (rule pow2_53_mult)
    also have "\<dots> \<le> pow2 (exponent_of q2)" using lt by simp
    also have "\<dots> = 2 ^ 52 * pow2 (exponent_of q2 - 52)"
      by (rule pow2_52_mult [symmetric])
    also have "\<dots> \<le> nearest q2"
    proof -
      have "- 1022 < exponent_of q2" using lt exponent_of_ge [of q1] by linarith
      then have "- 1022 \<le> ilog2 \<bar>q2\<bar>" by (simp add: exponent_of_def max_def split: if_splits)
      from significand_ge [OF _ this] q2 have "2 ^ 52 \<le> significand q2" by simp
      then have "2 ^ 52 \<le> real_of_int (significand q2)"
        using of_int_le_iff [of "2 ^ 52" "significand q2", where 'a = real] by simp
      then show ?thesis by (simp add: nearest_significand mult_right_mono)
    qed
    finally show ?thesis .
  qed
qed

lemma round64_pos:
  "0 < q \<Longrightarrow> round64 q = (if pow2 1024 \<le> nearest q then PInf else Fin (nearest q))"
  by (simp add: round64_def Let_def)

lemma round64_mono:
  assumes "0 \<le> q1" "q1 \<le> q2"
  shows "float_le (round64 q1) (round64 q2)"
proof (cases "q1 = 0")
  case True
  show ?thesis
  proof (cases "q2 = 0")
    case True
    with \<open>q1 = 0\<close> show ?thesis by (simp add: round64_def)
  next
    case False
    with assms True have "0 < q2" by simp
    then show ?thesis using True nearest_nonneg [of q2] by (simp add: round64_pos) (simp add: round64_def)
  qed
next
  case False
  with assms have p: "0 < q1" "0 < q2" by simp_all
  from nearest_mono [OF p(1) assms(2)] show ?thesis
    by (simp add: round64_pos p)
qed

lemma is_float64_round64: "is_float64 (round64 q)"
proof (cases "q = 0 \<or> nearest q = 0")
  case True
  then show ?thesis by (auto simp: round64_def Let_def)
next
  case False
  then have q: "q \<noteq> 0" and n: "0 < nearest q" using nearest_nonneg [of q] by auto
  have s: "sgn q * nearest q \<noteq> 0" using q n by (simp add: sgn_if)
  have a: "nearest (sgn q * nearest q) = nearest q"
    using nearest_idem [of q] nearest_minus [of "nearest q"] by (simp add: sgn_if)
  have g: "sgn (sgn q * nearest q) = sgn q" using n q by (simp add: sgn_if)
  have key: "round64 (sgn q * nearest q) = Fin (sgn q * nearest q)" if "\<not> pow2 1024 \<le> nearest q"
    using s that by (simp add: round64_def [of "sgn q * nearest q"] a g Let_def)
  show ?thesis
    using key by (simp add: round64_def [of q] Let_def q)
qed


lemma round64_0 [simp]: "round64 0 = Fin 0"
  by (simp add: round64_def)

lemma round64_cases_pos:
  assumes "0 < q"
  obtains "round64 q = PInf" | r where "round64 q = Fin r" "0 \<le> r" "round64 r = Fin r"
proof (cases "round64 q")
  case (Fin r)
  then have "r = nearest q" using assms by (simp add: round64_pos split: if_splits)
  then have "0 \<le> r" by (simp add: nearest_nonneg)
  moreover have "round64 r = Fin r" using is_float64_round64 [of q] Fin by simp
  ultimately show ?thesis using that(2) Fin by blast
next
  case PInf
  then show ?thesis using that(1) by blast
next
  case NInf
  then show ?thesis using assms by (simp add: round64_pos split: if_splits)
next
  case NaN
  then show ?thesis using assms by (simp add: round64_pos split: if_splits)
qed

lemma round64_pow2:
  assumes "- 1074 \<le> e" "e \<le> 1023"
  shows "round64 (pow2 e) = Fin (pow2 e)"
proof -
  have "nearest (pow2 e) = pow2 e"
  proof (cases "- 1022 \<le> e")
    case True
    have eq: "real_of_int (2 ^ 52) * pow2 (e - 52) = pow2 e"
      using pow2_52_mult [of e] by simp
    from nearest_grid [OF True, of "2 ^ 52"]
    have "nearest (real_of_int (2 ^ 52) * pow2 (e - 52)) = real_of_int (2 ^ 52) * pow2 (e - 52)"
      by simp
    then show ?thesis by (simp only: eq)
  next
    case False
    define d where "d = nat (e + 1074)"
    have "e = - 1074 + int d" using assms(1) by (simp add: d_def)
    then have "pow2 e = pow2 (- 1074 + int d)" by (rule arg_cong)
    also have "\<dots> = of_int (2 ^ d) * pow2 (- 1022 - 52)"
      by (simp only: pow2_add pow2_nat) (simp add: mult.commute)
    finally have p: "pow2 e = of_int (2 ^ d) * pow2 (- 1022 - 52)" .
    have "d \<le> 53" using False by (simp add: d_def)
    then have "(2::int) ^ d \<le> 2 ^ 53" by (rule power_increasing) simp
    from nearest_grid [of "- 1022" "2 ^ d", OF _ _ this] show ?thesis
      by (simp only: p) simp
  qed
  moreover have "pow2 e < pow2 1024" using assms(2) by simp
  ultimately show ?thesis by (simp add: round64_pos)
qed

lemma round64_1 [simp]: "round64 1 = Fin 1"
  using round64_pow2 [of 0] by simp

lemma round64_underflow:
  assumes "0 < q" "q < pow2 (- 1075)"
  shows "round64 q = Fin 0"
proof -
  from ilog2_bounds(1) [OF assms(1)] assms(2) have "pow2 (ilog2 q) < pow2 (- 1075)" by linarith
  then have "ilog2 q < - 1075" by simp
  then have e: "exponent_of q = - 1022" using assms(1) by (simp add: exponent_of_def)
  have "pow2 (- 1075) * 2 = pow2 (- 1074)"
    using pow2_add [of "- 1075" 1] by (simp add: pow2_def [of 1])
  then have "q * 2 < pow2 (- 1074)" using assms(2) by linarith
  then have h': "q / pow2 (- 1074) < 1 / 2" by (simp add: field_simps)
  have z': "0 \<le> q / pow2 (- 1074)" using assms(1) by simp
  define x where "x = q / pow2 (- 1074)"
  have h: "x < 1 / 2" and z: "0 \<le> x" using h' z' by (simp_all add: x_def)
  have f: "\<lfloor>x\<rfloor> = 0" using h z by (simp add: floor_eq_iff)
  have "round_half_even x = 0"
    using h by (simp add: round_half_even_def f)
  then have "nearest q = 0" using assms(1) by (simp add: nearest_def e x_def)
  then show ?thesis using assms(1) by (simp add: round64_pos)
qed

lemma float_le_round64_nonneg: "0 \<le> q \<Longrightarrow> float_le (Fin 0) (round64 q)"
  using round64_mono [of 0 q] by simp

text \<open>A double in \<open>[0, 1)\<close> is at most \<open>1 - 2 ^ -53\<close>.\<close>

lemma double_below_1:
  assumes "round64 s = Fin s" "0 \<le> s" "s < 1"
  shows "s \<le> 1 - pow2 (- 53)"
proof (cases "s < 1 / 2")
  case True
  have "pow2 (- 53) \<le> pow2 (- 1)" by simp
  also have "\<dots> = 1 / 2" by (simp add: pow2_def)
  finally show ?thesis using True by linarith
next
  case False
  then have pos: "0 < s" by linarith
  have "pow2 (- 1) = 1 / 2" by (simp add: pow2_def)
  with False have "pow2 (- 1) \<le> s" by simp
  moreover have "s < pow2 (- 1 + 1)" using assms(3) by simp
  ultimately have "ilog2 s = - 1" by (rule ilog2_unique)
  then have e: "exponent_of s = - 1" using pos by (simp add: exponent_of_def)
  from assms(1) pos have "nearest s = s" by (simp add: round64_pos split: if_splits)
  then have g: "s = of_int (significand s) * pow2 (- 53)"
    by (simp add: nearest_significand e)
  have "pow2 (- 53) * 2 ^ 53 = 1"
    using pow2_add [of "- 53" 53] by (simp add: pow2_def [of 53])
  then have one: "1 = real_of_int (2 ^ 53) * pow2 (- 53)" by simp
  have "real_of_int (significand s) * pow2 (- 53) < real_of_int (2 ^ 53) * pow2 (- 53)"
    using assms(3) g one by linarith
  then have "real_of_int (significand s) < real_of_int (2 ^ 53)"
    by (simp only: mult_less_cancel_right_pos [OF pow2_pos])
  then have "significand s < 2 ^ 53" by (simp only: of_int_less_iff)
  then have "significand s \<le> 2 ^ 53 - 1" by simp
  then have "real_of_int (significand s) \<le> real_of_int (2 ^ 53 - 1)" by (simp only: of_int_le_iff)
  then have "real_of_int (significand s) * pow2 (- 53) \<le> real_of_int (2 ^ 53 - 1) * pow2 (- 53)"
    by (rule mult_right_mono) simp
  also have "\<dots> = 1 - pow2 (- 53)" using one by (simp add: algebra_simps)
  finally show ?thesis using g by simp
qed

lemma slippage_factor:
  assumes "round64 s = Fin s" "0 \<le> s" "s < 1"
  obtains c where "float_sub (Fin 1) (Fin s) = Fin c" "pow2 (- 53) \<le> c" "c \<le> 1"
proof -
  have lo: "pow2 (- 53) \<le> 1 - s" using double_below_1 [OF assms] by linarith
  have "0 < 1 - s" using assms(3) by simp
  from round64_mono [of "pow2 (- 53)" "1 - s"] lo
  have l: "float_le (Fin (pow2 (- 53))) (round64 (1 - s))" by (simp add: round64_pow2)
  from round64_mono [of "1 - s" 1] assms(2) \<open>0 < 1 - s\<close>
  have u: "float_le (round64 (1 - s)) (Fin 1)" by simp
  show ?thesis
  proof (cases "round64 (1 - s)")
    case (Fin c)
    with l u that show ?thesis by simp
  qed (use l u in simp_all)
qed

text \<open>The estimate \<open>round64 Q\<close> of a positive exact value and the minimum derived from it.\<close>

lemma quote_bounds:
  assumes "0 < Q" "pow2 (- 53) \<le> c" "c \<le> 1"
  shows "float_le (float_mul (round64 Q) (Fin c)) (round64 Q) \<and>
     float_le (Fin 0) (float_mul (round64 Q) (Fin c)) \<and>
     float_le (Fin 0) (round64 Q) \<and>
     (pow2 (- 1021) \<le> Q \<longrightarrow>
        float_lt (Fin 0) (round64 Q) \<and> float_lt (Fin 0) (float_mul (round64 Q) (Fin c)))"
proof -
  have cpos: "0 < c" using assms(2) pow2_pos [of "- 53"] by linarith
  have lower: "float_le (Fin (pow2 (- 1021))) (round64 Q)" if "pow2 (- 1021) \<le> Q"
    using round64_mono [of "pow2 (- 1021)" Q] that by (simp add: round64_pow2)
  have tiny: "pow2 (- 1021) * pow2 (- 53) = pow2 (- 1074)"
    using pow2_add [of "- 1021" "- 53"] by simp
  from assms(1) show ?thesis
  proof (cases Q rule: round64_cases_pos)
    case 1
    then show ?thesis
      using cpos by (simp add: float_mul_def sign_of_def float_lt_def)
  next
    case (2 E)
    have m: "float_mul (Fin E) (Fin c) = round64 (E * c)"
      by (simp add: float_mul_def)
    have "E * c \<le> E" using 2(2) assms(3) by (simp add: mult_left_le)
    moreover have nn: "0 \<le> E * c" using 2(2) cpos by simp
    ultimately have "float_le (round64 (E * c)) (round64 E)" by (rule round64_mono [rotated])
    then have a: "float_le (float_mul (round64 Q) (Fin c)) (round64 Q)"
      by (simp add: 2 m)
    have b: "float_le (Fin 0) (float_mul (round64 Q) (Fin c))"
      using float_le_round64_nonneg [OF nn] by (simp add: 2 m)
    have c: "float_le (Fin 0) (round64 Q)" using 2 by simp
    have d: "float_lt (Fin 0) (round64 Q) \<and> float_lt (Fin 0) (float_mul (round64 Q) (Fin c))"
      if "pow2 (- 1021) \<le> Q"
    proof -
      from lower [OF that] have E: "pow2 (- 1021) \<le> E" by (simp add: 2)
      then have "0 < E" using pow2_pos [of "- 1021"] by linarith
      then have d1: "float_lt (Fin 0) (round64 Q)" by (simp add: 2 float_lt_def)
      have "pow2 (- 1021) * pow2 (- 53) \<le> E * c"
        using E assms(2) 2(2) by (intro mult_mono) simp_all
      then have "pow2 (- 1074) \<le> E * c" by (simp add: tiny)
      from round64_mono [OF _ this]
      have l: "float_le (Fin (pow2 (- 1074))) (round64 (E * c))" by (simp add: round64_pow2)
      have "float_lt (Fin 0) (float_mul (round64 Q) (Fin c))"
      proof (cases "round64 (E * c)")
        case (Fin r)
        with l have "pow2 (- 1074) \<le> r" by simp
        then have "0 < r" using pow2_pos [of "- 1074"] by linarith
        then show ?thesis by (simp add: 2 m Fin float_lt_def)
      qed (use l in \<open>simp_all add: 2 m float_lt_def\<close>)
      with d1 show ?thesis by simp
    qed
    from a b c d show ?thesis by simp
  qed
qed


subsection \<open>Running the monad\<close>

lemma io_bind_InrE:
  assumes "io_bind m f w = (Inr y, w')"
  obtains x w1 where "m w = (Inr x, w1)" and "f x w1 = (Inr y, w')"
  using assms by (auto simp: io_bind_def split: prod.splits sum.splits)

lemma request_Inr:
  "request r f w = (Inr x, w') \<Longrightarrow> x = f w \<and> w' = w\<lparr>rpc_log := rpc_log w @ [r]\<rparr> \<and> \<not> down w r"
  by (auto simp: request_def Let_def split: if_splits)

subsection \<open>Transaction status\<close>

lemma status_of_cases:
  "status_of rc c = ''confirmed'' \<longleftrightarrow> r_status rc = 1 \<and> 1 \<le> c"
  "status_of rc c = ''failed'' \<longleftrightarrow> r_status rc \<noteq> 1"
  "status_of rc c = ''pending_confirmation'' \<longleftrightarrow> r_status rc = 1 \<and> c < 1"
  by (auto simp: status_of_def)

lemma get_transaction_status_run:
  assumes "\<not> down w (Get_transaction_receipt h)" "\<not> down w Block_number"
  shows "fst (get_transaction_status h w) =
     (case receipts w h of
        None \<Rightarrow>
          Inl (BlockchainError (''Failed to check transaction status: '' @
                 ''Transaction with hash: '' @ [CHR 0x27] @ h @ [CHR 0x27] @ '' not found.''))
      | Some rc \<Rightarrow>
          Inr \<lparr>ts_status = status_of rc (block_number w - r_blockNumber rc),
               ts_confirmations = block_number w - r_blockNumber rc,
               ts_transaction_hash = Some h,
               ts_block_number = Some (r_blockNumber rc),
               ts_gas_used = Some (r_gasUsed rc)\<rparr>)"
  using assms
  by (simp add: get_transaction_status_def io_try_def io_bind_def get_transaction_receipt_def
      request_def Let_def get_block_number_def io_return_def io_raise_def logger_def
      split: option.splits)

text \<open>
  C8: when the two requests go through, \<open>get_transaction_status\<close> reports \<open>confirmed\<close>
  exactly when there is a receipt with status 1 and at least one confirmation (the
  threshold is the constant 1), \<open>failed\<close> exactly when there is a receipt whose status is
  not 1, and \<open>pending_confirmation\<close> exactly when there is a receipt with status 1 and
  less than one confirmation. With a receipt it always returns a report; without one the
  receipt query raises and the function raises \<open>BlockchainError\<close>, reporting nothing.
\<close>

theorem get_transaction_status_reports:
  assumes "\<not> down w (Get_transaction_receipt h)" and "\<not> down w Block_number"
  shows "((\<exists>st. fst (get_transaction_status h w) = Inr st \<and> ts_status st = ''confirmed'') \<longleftrightarrow>
        (\<exists>rc. receipts w h = Some rc \<and> r_status rc = 1 \<and> 1 \<le> block_number w - r_blockNumber rc)) \<and>
     ((\<exists>st. fst (get_transaction_status h w) = Inr st \<and> ts_status st = ''failed'') \<longleftrightarrow>
        (\<exists>rc. receipts w h = Some rc \<and> r_status rc \<noteq> 1)) \<and>
     ((\<exists>st. fst (get_transaction_status h w) = Inr st \<and> ts_status st = ''pending_confirmation'') \<longleftrightarrow>
        (\<exists>rc. receipts w h = Some rc \<and> r_status rc = 1 \<and> block_number w - r_blockNumber rc < 1)) \<and>
     (\<forall>rc. receipts w h = Some rc \<longrightarrow>
        (\<exists>st. fst (get_transaction_status h w) = Inr st \<and>
              ts_confirmations st = block_number w - r_blockNumber rc \<and>
              ts_transaction_hash st = Some h \<and> ts_block_number st = Some (r_blockNumber rc) \<and>
              ts_gas_used st = Some (r_gasUsed rc))) \<and>
     (receipts w h = None \<longrightarrow>
        fst (get_transaction_status h w) =
          Inl (BlockchainError (''Failed to check transaction status: '' @
                 ''Transaction with hash: '' @ [CHR 0x27] @ h @ [CHR 0x27] @ '' not found.'')))"
proof (cases "receipts w h")
  case None
  then show ?thesis
    using get_transaction_status_run [OF assms] by simp
next
  case (Some rc)
  then show ?thesis
    using get_transaction_status_run [OF assms] by (simp add: status_of_cases)
qed

theorem get_transaction_status_reports_witness:
  "\<not> down (example_world\<lparr>receipts := [''0xaa'' \<mapsto> example_receipt]\<rparr>) (Get_transaction_receipt ''0xaa'') \<and>
   \<not> down (example_world\<lparr>receipts := [''0xaa'' \<mapsto> example_receipt]\<rparr>) Block_number \<and>
   receipts (example_world\<lparr>receipts := [''0xaa'' \<mapsto> example_receipt]\<rparr>) ''0xaa'' = Some example_receipt \<and>
   (\<exists>st. fst (get_transaction_status ''0xaa'' (example_world\<lparr>receipts := [''0xaa'' \<mapsto> example_receipt]\<rparr>)) = Inr st \<and>
         ts_status st = ''confirmed'' \<and> ts_confirmations st = 2) \<and>
   \<not> down example_world (Get_transaction_receipt ''0xaa'') \<and> \<not> down example_world Block_number \<and>
   receipts example_world ''0xaa'' = None \<and>
   fst (get_transaction_status ''0xaa'' example_world) =
     Inl (BlockchainError (''Failed to check transaction status: '' @
            ''Transaction with hash: '' @ [CHR 0x27] @ ''0xaa'' @ [CHR 0x27] @ '' not found.''))"
proof -
  let ?W = "example_world\<lparr>receipts := [''0xaa'' \<mapsto> example_receipt]\<rparr>"
  have h: "\<not> down ?W (Get_transaction_receipt ''0xaa'')" "\<not> down ?W Block_number"
    "receipts ?W ''0xaa'' = Some example_receipt"
    "\<not> down example_world (Get_transaction_receipt ''0xaa'')" "\<not> down example_world Block_number"
    "receipts example_world ''0xaa'' = None"
    by (simp_all add: example_world_def)
  have v: "r_status example_receipt = 1" "block_number ?W - r_blockNumber example_receipt = 2"
    by (simp_all add: example_world_def example_receipt_def)
  note a = get_transaction_status_reports [OF h(1,2)]
  note b = get_transaction_status_reports [OF h(4,5)]
  have c: "\<exists>rc. receipts ?W ''0xaa'' = Some rc \<and> r_status rc = 1 \<and>
      1 \<le> block_number ?W - r_blockNumber rc"
    using h(3) v by (intro exI [of _ example_receipt]) simp
  from a [THEN conjunct1, THEN iffD2, OF c] obtain st where
    st: "fst (get_transaction_status ''0xaa'' ?W) = Inr st" "ts_status st = ''confirmed''"
    by (elim exE conjE)
  from a [THEN conjunct2, THEN conjunct2, THEN conjunct2, THEN conjunct1, rule_format, OF h(3)]
  obtain st' where st': "fst (get_transaction_status ''0xaa'' ?W) = Inr st'"
    "ts_confirmations st' = block_number ?W - r_blockNumber example_receipt"
    by (elim exE conjE)
  from st(1) st'(1) have "st' = st" by simp
  with st' v(2) have n: "ts_confirmations st = 2" by simp
  have x: "\<exists>st. fst (get_transaction_status ''0xaa'' ?W) = Inr st \<and>
         ts_status st = ''confirmed'' \<and> ts_confirmations st = 2"
    using st n by (intro exI [of _ st] conjI)
  note e = b [THEN conjunct2, THEN conjunct2, THEN conjunct2, THEN conjunct2, rule_format, OF h(6)]
  show ?thesis
    using h x e by (intro conjI)
qed

subsection \<open>Error formatting\<close>

lemma CryptoAgentError_unbound:
  "resolve_name ''CryptoAgentError'' =
     Inl (NameError (''name '' @ [CHR 0x27] @ ''CryptoAgentError'' @ [CHR 0x27] @ '' is not defined''))"
  by (simp add: resolve_name_def errors_module_globals_def python_builtins_def)

text \<open>
  C10: \<open>format_error\<close> raises \<open>NameError\<close> for every exception passed to it, because its
  \<open>isinstance\<close> check names \<open>CryptoAgentError\<close>, which is bound nowhere; no input reaches
  the return statement.
\<close>

theorem format_error_raises_NameError:
  "format_error error =
     Inl (NameError (''name '' @ [CHR 0x27] @ ''CryptoAgentError'' @ [CHR 0x27] @ '' is not defined''))"
  by (simp add: format_error_def CryptoAgentError_unbound)

subsection \<open>What a successful swap has submitted\<close>

lemma same_chain_refl: "same_chain w w"
  unfolding same_chain_def by (rule exI [of _ "rpc_log w"], rule exI [of _ "log w"]) simp

lemma same_chain_trans: "same_chain w w1 \<Longrightarrow> same_chain w1 w2 \<Longrightarrow> same_chain w w2"
  unfolding same_chain_def by clarsimp (intro exI, rule refl)

lemma same_chain_fields:
  assumes "same_chain w w'"
  shows "mempool w' = mempool w" "confirmed_count w' = confirmed_count w" "now w' = now w"
    "allowance w' = allowance w" "down w' = down w" "keccak w' = keccak w"
    "miner_active w' = miner_active w" "receipts w' = receipts w"
  using assms by (auto simp: same_chain_def)

lemma same_chain_rpc: "same_chain w (w\<lparr>rpc_log := rl\<rparr>)"
  unfolding same_chain_def by (rule exI [of _ rl], rule exI [of _ "log w"]) simp

lemma same_chain_log: "same_chain w (w\<lparr>log := lg\<rparr>)"
  unfolding same_chain_def by (rule exI [of _ "rpc_log w"], rule exI [of _ lg]) simp

lemma io_try_InrE:
  assumes "io_try m (\<lambda>e. io_bind (logger (l e)) (\<lambda>_. io_raise (g e))) w = (Inr y, w')"
  shows "m w = (Inr y, w')"
  using assms by (auto simp: io_try_def io_bind_def logger_def io_raise_def split: prod.splits sum.splits)

lemma send_raw_transaction_Inr:
  "send_raw_transaction tx w = (Inr h, w') \<Longrightarrow>
     h = keccak w tx \<and> w' = w\<lparr>rpc_log := rpc_log w @ [Send_raw_transaction tx],
                               mempool := mempool w @ [tx]\<rparr>"
  by (auto simp: send_raw_transaction_def Let_def split: if_splits)

lemma io_lift_Inr: "io_lift r w = (Inr x, w') \<Longrightarrow> r = Inr x \<and> w' = w"
  by (simp add: io_lift_def)

lemma logger_Inr: "logger l w = (Inr u, w') \<Longrightarrow> w' = w\<lparr>log := log w @ [l]\<rparr>"
  by (auto simp: logger_def)

lemma io_return_Inr: "io_return x w = (Inr y, w') \<Longrightarrow> y = x \<and> w' = w"
  by (simp add: io_return_def)

lemma sign_transaction_Inr: "sign_transaction tx = Inr s \<Longrightarrow> s = tx"
  by (simp add: sign_transaction_def split: if_splits)

lemma guard_Inr: "(if c then io_raise e else io_return ()) w = (Inr u, w') \<Longrightarrow> \<not> c \<and> w' = w"
  by (simp add: io_raise_def io_return_def split: if_splits)

lemma submit_eth_swap_Inr:
  assumes "submit_eth_swap self g m a d w = (Inr hx, w')"
  shows "\<exists>tx. mempool w' = mempool w @ [tx] \<and> tx_nonce tx = confirmed_count w \<and> tx_data tx = d"
  using assms
  unfolding submit_eth_swap_def Let_def get_transaction_count_def get_gas_price_def
    get_max_priority_fee_def 
  apply (elim io_bind_InrE)
  apply (auto dest!: request_Inr send_raw_transaction_Inr io_lift_Inr logger_Inr io_return_Inr
        sign_transaction_Inr simp: default_block_def transaction_count_def)
  done

lemma agent_submit_eth_swap_Inr:
  assumes "agent_submit_eth_swap self a d w = (Inr hx, w')"
  shows "\<exists>tx. mempool w' = mempool w @ [tx] \<and> tx_nonce tx = confirmed_count w \<and> tx_data tx = d"
  using assms
  unfolding agent_submit_eth_swap_def Let_def get_transaction_count_def get_gas_price_def
    get_max_priority_fee_def 
  apply (elim io_bind_InrE)
  apply (auto dest!: request_Inr send_raw_transaction_Inr io_lift_Inr logger_Inr io_return_Inr
        sign_transaction_Inr simp: default_block_def transaction_count_def)
  done

lemma submit_usdc_swap_Inr:
  assumes "submit_usdc_swap self g m d w = (Inr hx, w')"
  shows "\<exists>tx. mempool w' = mempool w @ [tx] \<and> confirmed_count w' = confirmed_count w \<and>
     tx_nonce tx = confirmed_count w + length (mempool w) \<and> tx_data tx = d"
  using assms
  unfolding submit_usdc_swap_def Let_def get_transaction_count_def get_gas_price_def
    get_max_priority_fee_def 
  apply (elim io_bind_InrE)
  apply (auto dest!: request_Inr send_raw_transaction_Inr io_lift_Inr logger_Inr io_return_Inr
        sign_transaction_Inr simp: default_block_def transaction_count_def)
  done

lemma fetch_price_call_same_chain: "fetch_price_call w = (r, w') \<Longrightarrow> same_chain w w'"
  by (auto simp: fetch_price_call_def same_chain_rpc same_chain_refl
      split: fetch_result.splits py_error.splits)

lemma get_eth_price_same_chain: "get_eth_price w = (r, w') \<Longrightarrow> same_chain w w'"
  by (auto simp: get_eth_price_def io_try_def io_bind_def logger_def io_return_def
      split: prod.splits sum.splits
      intro: same_chain_trans [OF fetch_price_call_same_chain same_chain_log]
      dest: fetch_price_call_same_chain)

lemma get_eth_balance_Inr: "get_eth_balance w = (Inr x, w') \<Longrightarrow> same_chain w w'"
  unfolding get_eth_balance_def get_balance_def
  by (elim io_bind_InrE) (auto dest!: request_Inr io_lift_Inr simp: same_chain_rpc)

lemma estimate_usdc_output_Inr: "estimate_usdc_output a s w = (Inr q, w') \<Longrightarrow> same_chain w w'"
  unfolding estimate_usdc_output_def Let_def
  apply (drule io_try_InrE)
  apply (elim io_bind_InrE)
  apply (auto dest!: logger_Inr io_return_Inr get_eth_price_same_chain
      intro: same_chain_trans same_chain_log)
  done

lemma encode_eth_swap_Inr:
  "encode_eth_swap a m w = (Inr d, w') \<Longrightarrow>
     w' = w \<and> d = Execute [WRAP_ETH ROUTER a, V2_SWAP_EXACT_IN SENDER a m [WETH_ADDRESS, USDC_ADDRESS] False]
                    (now w + 180)"
  by (auto simp: encode_eth_swap_def build_def chain_def wrap_eth_def v2_swap_exact_in_def
      get_default_deadline_def Let_def split: if_splits)

lemma encode_usdc_swap_Inr:
  "encode_usdc_swap a m w = (Inr d, w') \<Longrightarrow>
     w' = w \<and> d = Execute [V2_SWAP_EXACT_IN SENDER a m [USDC_ADDRESS, WETH_ADDRESS] True, UNWRAP_WETH SENDER 0]
                    (now w + 180)"
  by (auto simp: encode_usdc_swap_def build_def chain_def unwrap_weth_def v2_swap_exact_in_def
      get_default_deadline_def Let_def split: if_splits)

lemma swap_eth_to_usdc_Inr:
  assumes "swap_eth_to_usdc self a s g m w = (Inr r, w')"
  shows "\<exists>tx wei mo. mempool w' = mempool w @ [tx] \<and> tx_nonce tx = confirmed_count w \<and>
      tx_data tx = Execute [WRAP_ETH ROUTER wei, V2_SWAP_EXACT_IN SENDER wei mo [WETH_ADDRESS, USDC_ADDRESS] False]
                    (now w + 180)"
proof -
  from assms [unfolded swap_eth_to_usdc_def Let_def, THEN io_try_InrE]
  obtain w1 bal w2 w3 wei w4 q w5 mo w6 d w7 hx w8 where
    1: "get_eth_balance w1 = (Inr bal, w2)" and g1: "w1 = w" and g2: "w3 = w2"
    and 2: "to_wei w3 a = Inr wei" "w4 = w3"
    and 3: "estimate_usdc_output a s w4 = (Inr q, w5)"
    and 4: "w6 = w5"
    and 5: "encode_eth_swap wei mo w6 = (Inr d, w7)"
    and 6: "submit_eth_swap self g m wei d w7 = (Inr hx, w8)"
    and 7: "w' = w8"
    by (elim io_bind_InrE) (auto dest!: guard_Inr io_lift_Inr io_return_Inr)
  have sc: "same_chain w w7"
    using get_eth_balance_Inr [OF 1] estimate_usdc_output_Inr [OF 3] encode_eth_swap_Inr [OF 5]
      g1 g2 2 4 by (auto intro: same_chain_trans)
  from encode_eth_swap_Inr [OF 5] have d: "d = Execute [WRAP_ETH ROUTER wei, V2_SWAP_EXACT_IN SENDER wei mo [WETH_ADDRESS, USDC_ADDRESS] False] (now w6 + 180)" by simp
  have "now w6 = now w" using sc encode_eth_swap_Inr [OF 5] by (simp add: same_chain_fields)
  with submit_eth_swap_Inr [OF 6] d sc 7 show ?thesis
    by (auto simp: same_chain_fields)
qed

lemma agent_swap_eth_to_usdc_Inr:
  assumes "agent_swap_eth_to_usdc self a w = (Inr r, w')"
  shows "\<exists>tx wei mo. mempool w' = mempool w @ [tx] \<and> tx_nonce tx = confirmed_count w \<and>
      tx_data tx = Execute [WRAP_ETH ROUTER wei, V2_SWAP_EXACT_IN SENDER wei mo [WETH_ADDRESS, USDC_ADDRESS] False]
                    (now w + 180)"
proof -
  from assms [unfolded agent_swap_eth_to_usdc_def Let_def, THEN io_try_InrE]
  obtain wei mo w6 d w7 where
    5: "encode_eth_swap wei mo w6 = (Inr d, w7)" and 4: "w6 = w"
    and 6: "agent_submit_eth_swap self wei d w7 = (Inr r, w')"
    by (elim io_bind_InrE) (auto dest!: io_lift_Inr)
  from encode_eth_swap_Inr [OF 5] agent_submit_eth_swap_Inr [OF 6] 4 show ?thesis
    by auto
qed

lemma swap_usdc_to_eth_Inr:
  assumes "swap_usdc_to_eth self a s g m wa w = (Inr r, w')"
  shows "\<exists>txs tx au mo d. mempool w' = txs @ [tx] \<and>
      tx_nonce tx = confirmed_count w' + length txs \<and>
      tx_data tx = Execute [V2_SWAP_EXACT_IN SENDER au mo [USDC_ADDRESS, WETH_ADDRESS] True, UNWRAP_WETH SENDER 0] d"
proof -
  from assms [unfolded swap_usdc_to_eth_def Let_def, THEN io_try_InrE]
  obtain au mo w6 d w7 hx w8 where
    5: "encode_usdc_swap au mo w6 = (Inr d, w7)"
    and 6: "submit_usdc_swap self g m d w7 = (Inr hx, w8)"
    and 7: "w' = w8"
    by (elim io_bind_InrE) (auto dest!: io_lift_Inr io_return_Inr)
  from encode_usdc_swap_Inr [OF 5] submit_usdc_swap_Inr [OF 6] 7 show ?thesis
    by auto
qed

subsection \<open>Concrete runs\<close>

lemma to_hex_not_Nil: "to_hex h \<noteq> []"
  by (simp add: to_hex_def)

lemmas float_eval = round64_def nearest_def exponent_of_def ilog2_def pow2_def round_half_even_def Let_def bitlen_def
  compute_floorlog float_mul_def float_truediv_def float_of_int_def int_truediv_def
  float_literal_def sign_of_def float_lt_def float_gt_def int_of_scaled_def int_of_product_def

lemmas io_eval = io_bind_def io_try_def io_return_def io_raise_def io_lift_def logger_def
  request_def

lemmas swap_eval = swap_eth_to_usdc_def get_eth_balance_def get_balance_def estimate_usdc_output_def
  get_eth_price_def fetch_price_call_def encode_eth_swap_def submit_eth_swap_def build_def
  chain_def wrap_eth_def v2_swap_exact_in_def unwrap_weth_def is_uint256_def MAX_UINT256_def
  get_default_deadline_def get_transaction_count_def default_block_def transaction_count_def
  get_gas_price_def get_max_priority_fee_def sign_transaction_def send_raw_transaction_def
  llm_service_fetch_price_def example_service_def
  swap_usdc_to_eth_def get_usdc_balance_def balanceOf_def estimate_eth_output_def
  encode_usdc_swap_def submit_usdc_swap_def ensure_permit2_approval_def approve_permit2_def
  allowance_call_def wait_for_transaction_receipt_def mine_block_def include_tx_def
  agent_swap_eth_to_usdc_def agent_submit_eth_swap_def agent_ensure_permit2_approval_def

lemma example_eth_swap_runs:
  "\<exists>r w'. swap_eth_to_usdc example_service (Fin 1) (float_literal (1 / 100)) 500000 (Fin (3 / 2))
             example_world = (Inr r, w')"
  by (simp add: swap_eval io_eval example_world_def float_eval)

lemma example_usdc_swap_runs:
  "\<exists>r w'. swap_usdc_to_eth example_service (Fin 100) (float_literal (1 / 100)) 500000 (Fin (3 / 2)) True
             (example_world\<lparr>miner_active := True\<rparr>) = (Inr r, w')"
  by (simp add: swap_eval io_eval example_world_def float_eval to_hex_not_Nil)

subsection \<open>Order of the encoded calls\<close>

text \<open>
  C6: the transaction that a successful \<open>swap_eth_to_usdc\<close> has submitted encodes the wrap
  step first and the exchange call second; the one that a successful \<open>swap_usdc_to_eth\<close>
  has submitted encodes the exchange call first and the unwrap step second.
\<close>

theorem swap_call_sequence_order:
  "(swap_eth_to_usdc self a s g m w = (Inr r, w') \<longrightarrow>
      (\<exists>tx wei mo d. mempool w' = mempool w @ [tx] \<and>
         tx_data tx = Execute [WRAP_ETH ROUTER wei,
                               V2_SWAP_EXACT_IN SENDER wei mo [WETH_ADDRESS, USDC_ADDRESS] False] d)) \<and>
   (swap_usdc_to_eth self a2 s2 g2 m2 wa w2 = (Inr r2, w2') \<longrightarrow>
      (\<exists>txs tx au mo d. mempool w2' = txs @ [tx] \<and>
         tx_data tx = Execute [V2_SWAP_EXACT_IN SENDER au mo [USDC_ADDRESS, WETH_ADDRESS] True,
                               UNWRAP_WETH SENDER 0] d))"
proof (intro conjI impI)
  assume "swap_eth_to_usdc self a s g m w = (Inr r, w')"
  from swap_eth_to_usdc_Inr [OF this] show "\<exists>tx wei mo d. mempool w' = mempool w @ [tx] \<and>
         tx_data tx = Execute [WRAP_ETH ROUTER wei,
                               V2_SWAP_EXACT_IN SENDER wei mo [WETH_ADDRESS, USDC_ADDRESS] False] d"
    by blast
next
  assume "swap_usdc_to_eth self a2 s2 g2 m2 wa w2 = (Inr r2, w2')"
  from swap_usdc_to_eth_Inr [OF this] show "\<exists>txs tx au mo d. mempool w2' = txs @ [tx] \<and>
         tx_data tx = Execute [V2_SWAP_EXACT_IN SENDER au mo [USDC_ADDRESS, WETH_ADDRESS] True,
                               UNWRAP_WETH SENDER 0] d"
    by blast
qed

theorem swap_call_sequence_order_witness:
  "(\<exists>r w'. swap_eth_to_usdc example_service (Fin 1) (float_literal (1 / 100)) 500000 (Fin (3 / 2))
              example_world = (Inr r, w') \<and>
      (\<exists>tx wei mo d. mempool w' = mempool example_world @ [tx] \<and>
         tx_data tx = Execute [WRAP_ETH ROUTER wei,
                               V2_SWAP_EXACT_IN SENDER wei mo [WETH_ADDRESS, USDC_ADDRESS] False] d)) \<and>
   (\<exists>r w'. swap_usdc_to_eth example_service (Fin 100) (float_literal (1 / 100)) 500000 (Fin (3 / 2)) True
              (example_world\<lparr>miner_active := True\<rparr>) = (Inr r, w') \<and>
      (\<exists>txs tx au mo d. mempool w' = txs @ [tx] \<and>
         tx_data tx = Execute [V2_SWAP_EXACT_IN SENDER au mo [USDC_ADDRESS, WETH_ADDRESS] True,
                               UNWRAP_WETH SENDER 0] d))"
proof -
  obtain r w' where 1: "swap_eth_to_usdc example_service (Fin 1) (float_literal (1 / 100)) 500000
      (Fin (3 / 2)) example_world = (Inr r, w')"
    using example_eth_swap_runs by blast
  obtain r2 w2' where 2: "swap_usdc_to_eth example_service (Fin 100) (float_literal (1 / 100)) 500000
      (Fin (3 / 2)) True (example_world\<lparr>miner_active := True\<rparr>) = (Inr r2, w2')"
    using example_usdc_swap_runs by blast
  have "\<exists>tx wei mo d. mempool w' = mempool example_world @ [tx] \<and>
         tx_data tx = Execute [WRAP_ETH ROUTER wei,
                               V2_SWAP_EXACT_IN SENDER wei mo [WETH_ADDRESS, USDC_ADDRESS] False] d"
    using swap_call_sequence_order [THEN conjunct1, rule_format, OF 1] .
  moreover have "\<exists>txs tx au mo d. mempool w2' = txs @ [tx] \<and>
         tx_data tx = Execute [V2_SWAP_EXACT_IN SENDER au mo [USDC_ADDRESS, WETH_ADDRESS] True,
                               UNWRAP_WETH SENDER 0] d"
    using swap_call_sequence_order [THEN conjunct2, rule_format, OF 2] .
  ultimately show ?thesis using 1 2 by blast
qed

subsection \<open>Where the nonce comes from\<close>

text \<open>
  C2, ETH to USDC, with one transaction of the account pending: the pending-inclusive
  count is 8, but the service and the agent both give the swap the nonce 7 of the
  pending transaction.
\<close>

theorem eth_to_usdc_nonce_ignores_pending:
  "transaction_count pending_world Pending = 8 \<and>
   \<not> isl (fst (swap_eth_to_usdc example_service (Fin 1) (float_literal (1 / 100)) 500000 (Fin (3 / 2))
              pending_world)) \<and>
   map tx_nonce (mempool (snd (swap_eth_to_usdc example_service (Fin 1) (float_literal (1 / 100))
              500000 (Fin (3 / 2)) pending_world))) = [7, 7] \<and>
   \<not> isl (fst (agent_swap_eth_to_usdc example_service (Fin 1) pending_world)) \<and>
   map tx_nonce (mempool (snd (agent_swap_eth_to_usdc example_service (Fin 1) pending_world))) = [7, 7]"
  by (simp add: swap_eval io_eval example_world_def pending_world_def example_pending_tx_def
      float_eval)

subsection \<open>Validation of a swap request\<close>

text \<open>
  A slippage outside \<open>[0, 1)\<close> is not rejected: with a slippage of -50 % the swap queries
  the balance and submits a transaction.
\<close>

theorem negative_slippage_is_submitted:
  "\<not> isl (fst (swap_eth_to_usdc example_service (Fin 1) (Fin (- 1 / 2)) 500000 (Fin (3 / 2))
              example_world)) \<and>
   take 1 (rpc_log (snd (swap_eth_to_usdc example_service (Fin 1) (Fin (- 1 / 2)) 500000 (Fin (3 / 2))
              example_world))) = [Get_balance] \<and>
   length (mempool (snd (swap_eth_to_usdc example_service (Fin 1) (Fin (- 1 / 2)) 500000 (Fin (3 / 2))
              example_world))) = 1"
  by (simp add: swap_eval io_eval example_world_def float_eval)

text \<open>
  C5, as the code has it: a swap of an amount \<open>\<le> 0\<close> fails with \<open>BlockchainError\<close> in both
  directions before any request is made; it only writes an error line to the log. The
  slippage is not validated.
\<close>

theorem nonpositive_amount_fails_before_io:
  assumes "float_le amount (Fin 0)"
  shows "swap_eth_to_usdc self amount slippage gas_limit multiplier w =
           (Inl (BlockchainError ''Failed to swap ETH to USDC: ETH amount must be greater than 0''),
            w\<lparr>log := log w @
               [LogError ''Error executing ETH to USDC swap: ETH amount must be greater than 0'']\<rparr>) \<and>
         swap_usdc_to_eth self amount slippage gas_limit multiplier wait w =
           (Inl (BlockchainError ''Failed to swap USDC to ETH: USDC amount must be greater than 0''),
            w\<lparr>log := log w @
               [LogError ''Error executing USDC to ETH swap: USDC amount must be greater than 0'']\<rparr>)"
  using assms by (simp add: swap_eth_to_usdc_def swap_usdc_to_eth_def io_eval)

theorem nonpositive_amount_fails_before_io_witness:
  "float_le (Fin 0) (Fin 0) \<and>
   swap_eth_to_usdc example_service (Fin 0) (float_literal (1 / 100)) 500000 (Fin (3 / 2)) example_world =
           (Inl (BlockchainError ''Failed to swap ETH to USDC: ETH amount must be greater than 0''),
            example_world\<lparr>log := log example_world @
               [LogError ''Error executing ETH to USDC swap: ETH amount must be greater than 0'']\<rparr>) \<and>
   swap_usdc_to_eth example_service (Fin 0) (float_literal (1 / 100)) 500000 (Fin (3 / 2)) True example_world =
           (Inl (BlockchainError ''Failed to swap USDC to ETH: USDC amount must be greater than 0''),
            example_world\<lparr>log := log example_world @
               [LogError ''Error executing USDC to ETH swap: USDC amount must be greater than 0'']\<rparr>)"
  using nonpositive_amount_fails_before_io [of "Fin 0" example_service "float_literal (1 / 100)"
      500000 "Fin (3 / 2)" example_world True]
  by simp

subsection \<open>The Permit2 approval\<close>

lemma uint256_max_iff: "MAX_UINT256 \<le> uint (a :: 256 word) \<longleftrightarrow> uint a = MAX_UINT256"
  using uint_bounded [of a] by (auto simp: MAX_UINT256_def)

lemma approve_permit2_run:
  assumes "\<forall>r. \<not> down w r"
  shows "approve_permit2 self w =
     (let tx = approval_tx self w (transaction_count w Pending);
          hx = to_hex (keccak w tx)
      in case wait_for_transaction_receipt hx (after_approval_sent w tx) of
           (Inl e, w') \<Rightarrow> (Inl e, w')
         | (Inr rc, w') \<Rightarrow> (Inr hx, w'))"
  using assms
  by (simp add: approve_permit2_def io_eval get_transaction_count_def get_max_priority_fee_def
      get_gas_price_def sign_transaction_def send_raw_transaction_def Let_def approval_tx_def
      after_approval_sent_def split: prod.splits sum.splits)

lemma rpc_log_include_tx: "rpc_log (include_tx b tx w) = rpc_log w"
  by (simp add: include_tx_def Let_def split: call_data.splits)

lemma rpc_log_fold_include_tx: "rpc_log (fold (include_tx b) txs w) = rpc_log w"
  by (induction txs arbitrary: w) (simp_all add: rpc_log_include_tx)

lemma rpc_log_mine_block: "rpc_log (mine_block w) = rpc_log w"
  by (simp add: mine_block_def Let_def rpc_log_fold_include_tx)

lemma rpc_log_wait:
  "rpc_log (snd (wait_for_transaction_receipt h w)) = rpc_log w @ [Wait_for_transaction_receipt h]"
  by (simp add: wait_for_transaction_receipt_def Let_def rpc_log_mine_block split: option.splits)

lemma wait_times_out:
  assumes "\<not> down w (Wait_for_transaction_receipt h)" "\<not> miner_active w" "receipts w h = None"
  shows "wait_for_transaction_receipt h w =
     (Inl (TimeExhausted (time_exhausted_message h)),
      w\<lparr>rpc_log := rpc_log w @ [Wait_for_transaction_receipt h]\<rparr>)"
  using assms by (simp add: wait_for_transaction_receipt_def Let_def)

lemma approve_permit2_Inr:
  assumes "approve_permit2 self w = (Inr x, w')"
  shows "x \<noteq> []"
  using assms unfolding approve_permit2_def Let_def
  by (elim io_bind_InrE) (auto dest!: io_return_Inr simp: to_hex_not_Nil)


lemma ensure_permit2_approval_cases:
  "ensure_permit2_approval self w =
     (if down w Allowance
      then (Inl (BlockchainError ''Failed to approve Permit2: request failed''),
            w\<lparr>rpc_log := rpc_log w @ [Allowance],
              log := log w @ [LogError ''Error approving Permit2 for USDC: request failed'']\<rparr>)
      else if uint (allowance w) = MAX_UINT256
      then (Inr [], w\<lparr>rpc_log := rpc_log w @ [Allowance],
                      log := log w @ [LogInfo ''Permit2 already approved for USDC'']\<rparr>)
      else case approve_permit2 self (w\<lparr>rpc_log := rpc_log w @ [Allowance]\<rparr>) of
             (Inl e, w') \<Rightarrow>
               (Inl (BlockchainError (''Failed to approve Permit2: '' @ error_message e)),
                w'\<lparr>log := log w' @ [LogError (''Error approving Permit2 for USDC: '' @ error_message e)]\<rparr>)
           | (Inr x, w') \<Rightarrow> (Inr x, w'))"
  by (simp add: ensure_permit2_approval_def io_eval allowance_call_def Let_def uint256_max_iff
      split: prod.splits sum.splits)

lemma agent_ensure_permit2_approval_cases:
  "agent_ensure_permit2_approval self w =
     (if down w Allowance
      then (Inl (TransportError ''request failed''), w\<lparr>rpc_log := rpc_log w @ [Allowance]\<rparr>)
      else if uint (allowance w) = MAX_UINT256
      then (Inr [], w\<lparr>rpc_log := rpc_log w @ [Allowance],
                      log := log w @ [LogInfo ''Permit2 already approved for USDC'']\<rparr>)
      else case approve_permit2 self (w\<lparr>rpc_log := rpc_log w @ [Allowance]\<rparr>) of
             (Inl e, w') \<Rightarrow>
               (Inl (BlockchainError (''Failed to approve Permit2: '' @ error_message e)),
                w'\<lparr>log := log w' @ [LogError (''Error approving Permit2 for USDC: '' @ error_message e)]\<rparr>)
           | (Inr x, w') \<Rightarrow> (Inr x, w'))"
  by (simp add: agent_ensure_permit2_approval_def io_eval allowance_call_def Let_def uint256_max_iff
      split: prod.splits sum.splits)

lemma ensure_empty_iff:
  "fst (ensure_permit2_approval self w) = Inr [] \<longleftrightarrow> \<not> down w Allowance \<and> uint (allowance w) = MAX_UINT256"
  by (auto simp: ensure_permit2_approval_cases split: prod.splits sum.splits dest: approve_permit2_Inr)

lemma agent_ensure_empty_iff:
  "fst (agent_ensure_permit2_approval self w) = Inr [] \<longleftrightarrow> \<not> down w Allowance \<and> uint (allowance w) = MAX_UINT256"
  by (auto simp: agent_ensure_permit2_approval_cases split: prod.splits sum.splits dest: approve_permit2_Inr)

lemma rpc_log_approve_permit2:
  assumes "\<forall>r. \<not> down w r"
  shows "rpc_log (snd (approve_permit2 self w)) =
     rpc_log w @ [Get_transaction_count Pending, Max_priority_fee, Gas_price,
                  Send_raw_transaction (approval_tx self w (transaction_count w Pending)),
                  Wait_for_transaction_receipt
                    (to_hex (keccak w (approval_tx self w (transaction_count w Pending))))]"
proof -
  let ?tx = "approval_tx self w (transaction_count w Pending)"
  let ?hx = "to_hex (keccak w ?tx)"
  have "rpc_log (snd (approve_permit2 self w)) =
      rpc_log (snd (wait_for_transaction_receipt ?hx (after_approval_sent w ?tx)))"
    by (simp add: approve_permit2_run [OF assms] Let_def split: prod.splits sum.splits)
  then show ?thesis
    by (simp add: rpc_log_wait after_approval_sent_def)
qed

lemma rpc_log_log_update: "rpc_log (w\<lparr>log := l\<rparr>) = rpc_log w"
  by simp

lemma rpc_log_ensure:
  assumes "\<forall>r. \<not> down w r" "uint (allowance w) < MAX_UINT256"
  shows "rpc_log (snd (ensure_permit2_approval self w)) =
     rpc_log w @ [Allowance, Get_transaction_count Pending, Max_priority_fee, Gas_price,
                  Send_raw_transaction (approval_tx self w (transaction_count w Pending)),
                  Wait_for_transaction_receipt
                    (to_hex (keccak w (approval_tx self w (transaction_count w Pending))))]"
proof -
  let ?w1 = "w\<lparr>rpc_log := rpc_log w @ [Allowance]\<rparr>"
  have d: "\<forall>r. \<not> down ?w1 r" using assms by simp
  have "rpc_log (snd (ensure_permit2_approval self w)) = rpc_log (snd (approve_permit2 self ?w1))"
    using assms by (simp add: ensure_permit2_approval_cases split: prod.splits sum.splits)
  then show ?thesis
    by (simp add: rpc_log_approve_permit2 [OF d] approval_tx_def transaction_count_def)
qed

lemma rpc_log_agent_ensure:
  assumes "\<forall>r. \<not> down w r" "uint (allowance w) < MAX_UINT256"
  shows "rpc_log (snd (agent_ensure_permit2_approval self w)) =
     rpc_log w @ [Allowance, Get_transaction_count Pending, Max_priority_fee, Gas_price,
                  Send_raw_transaction (approval_tx self w (transaction_count w Pending)),
                  Wait_for_transaction_receipt
                    (to_hex (keccak w (approval_tx self w (transaction_count w Pending))))]"
proof -
  let ?w1 = "w\<lparr>rpc_log := rpc_log w @ [Allowance]\<rparr>"
  have d: "\<forall>r. \<not> down ?w1 r" using assms by simp
  have "rpc_log (snd (agent_ensure_permit2_approval self w)) = rpc_log (snd (approve_permit2 self ?w1))"
    using assms by (simp add: agent_ensure_permit2_approval_cases split: prod.splits sum.splits)
  then show ?thesis
    by (simp add: rpc_log_approve_permit2 [OF d] approval_tx_def transaction_count_def)
qed

lemma fields_include_tx:
  "keccak (include_tx b tx w) = keccak w"
  "tx_succeeds (include_tx b tx w) = tx_succeeds w"
  "confirmed_count (include_tx b tx w) = Suc (confirmed_count w)"
  "receipts (include_tx b tx w) =
     (receipts w)(to_hex (keccak w tx) \<mapsto>
        \<lparr>r_status = (if tx_succeeds w tx then 1 else 0), r_blockNumber = b, r_gasUsed = tx_gas tx\<rparr>)"
  by (simp_all add: include_tx_def Let_def split: call_data.splits)

lemma fields_fold_include_tx:
  "keccak (fold (include_tx b) txs w) = keccak w \<and>
   tx_succeeds (fold (include_tx b) txs w) = tx_succeeds w \<and>
   confirmed_count (fold (include_tx b) txs w) = confirmed_count w + length txs"
  by (induction txs arbitrary: w) (simp_all add: fields_include_tx)

lemma mine_block_last:
  assumes "mempool w = txs @ [tx]"
  shows "receipts (mine_block w) (to_hex (keccak w tx)) =
           Some \<lparr>r_status = (if tx_succeeds w tx then 1 else 0),
                 r_blockNumber = block_number w + 1, r_gasUsed = tx_gas tx\<rparr>"
    and "mempool (mine_block w) = []"
    and "confirmed_count (mine_block w) = Suc (confirmed_count w + length txs)"
  using assms fields_fold_include_tx [of "block_number w + 1" txs w]
  by (simp_all add: mine_block_def Let_def fields_include_tx)

lemma wait_mined:
  assumes "\<not> down w (Wait_for_transaction_receipt (to_hex (keccak w tx)))" "miner_active w"
    and "mempool w = txs @ [tx]"
  shows "fst (wait_for_transaction_receipt (to_hex (keccak w tx)) w) =
           Inr \<lparr>r_status = (if tx_succeeds w tx then 1 else 0),
                r_blockNumber = block_number w + 1, r_gasUsed = tx_gas tx\<rparr>"
    and "mempool (snd (wait_for_transaction_receipt (to_hex (keccak w tx)) w)) = []"
    and "confirmed_count (snd (wait_for_transaction_receipt (to_hex (keccak w tx)) w)) =
           Suc (confirmed_count w + length txs)"
    and "receipts (snd (wait_for_transaction_receipt (to_hex (keccak w tx)) w)) (to_hex (keccak w tx)) =
           Some \<lparr>r_status = (if tx_succeeds w tx then 1 else 0),
                 r_blockNumber = block_number w + 1, r_gasUsed = tx_gas tx\<rparr>"
proof -
  let ?h = "to_hex (keccak w tx)"
  let ?w' = "w\<lparr>rpc_log := rpc_log w @ [Wait_for_transaction_receipt ?h]\<rparr>"
  have m: "mempool ?w' = txs @ [tx]" using assms(3) by simp
  note l = mine_block_last [OF m]
  have r: "receipts (mine_block ?w') ?h =
      Some \<lparr>r_status = (if tx_succeeds w tx then 1 else 0),
            r_blockNumber = block_number w + 1, r_gasUsed = tx_gas tx\<rparr>"
    using l(1) by simp
  have c: "confirmed_count (mine_block ?w') = Suc (confirmed_count w + length txs)"
    using l(3) by simp
  have w: "wait_for_transaction_receipt ?h w =
      (Inr \<lparr>r_status = (if tx_succeeds w tx then 1 else 0),
            r_blockNumber = block_number w + 1, r_gasUsed = tx_gas tx\<rparr>, mine_block ?w')"
    using assms(1,2) by (simp add: wait_for_transaction_receipt_def Let_def r)
  show "fst (wait_for_transaction_receipt ?h w) =
           Inr \<lparr>r_status = (if tx_succeeds w tx then 1 else 0),
                r_blockNumber = block_number w + 1, r_gasUsed = tx_gas tx\<rparr>"
    and "mempool (snd (wait_for_transaction_receipt ?h w)) = []"
    and "confirmed_count (snd (wait_for_transaction_receipt ?h w)) = Suc (confirmed_count w + length txs)"
    and "receipts (snd (wait_for_transaction_receipt ?h w)) ?h =
           Some \<lparr>r_status = (if tx_succeeds w tx then 1 else 0),
                 r_blockNumber = block_number w + 1, r_gasUsed = tx_gas tx\<rparr>"
    unfolding w by (simp_all add: l(2) r c)
qed

lemma wait_unmined:
  assumes "\<not> miner_active w"
  shows "mempool (snd (wait_for_transaction_receipt h w)) = mempool w"
    and "confirmed_count (snd (wait_for_transaction_receipt h w)) = confirmed_count w"
  using assms by (simp_all add: wait_for_transaction_receipt_def Let_def split: option.splits)

text \<open>What \<open>approve_permit2\<close> leaves in the ledger when no request fails.\<close>

lemma approve_permit2_ledger:
  assumes "\<forall>r. \<not> down w r"
  shows "\<not> miner_active w \<Longrightarrow>
           mempool (snd (approve_permit2 self w)) =
             mempool w @ [approval_tx self w (transaction_count w Pending)]"
    and "\<not> miner_active w \<Longrightarrow> confirmed_count (snd (approve_permit2 self w)) = confirmed_count w"
    and "miner_active w \<Longrightarrow>
           fst (approve_permit2 self w) =
             Inr (to_hex (keccak w (approval_tx self w (transaction_count w Pending))))"
    and "miner_active w \<Longrightarrow> mempool (snd (approve_permit2 self w)) = []"
    and "miner_active w \<Longrightarrow>
           confirmed_count (snd (approve_permit2 self w)) =
             Suc (confirmed_count w + length (mempool w))"
    and "miner_active w \<Longrightarrow>
           receipts (snd (approve_permit2 self w))
             (to_hex (keccak w (approval_tx self w (transaction_count w Pending)))) =
             Some \<lparr>r_status = (if tx_succeeds w (approval_tx self w (transaction_count w Pending))
                                then 1 else 0),
                   r_blockNumber = block_number w + 1, r_gasUsed = 100000\<rparr>"
proof -
  let ?tx = "approval_tx self w (transaction_count w Pending)"
  let ?hx = "to_hex (keccak w ?tx)"
  let ?w5 = "after_approval_sent w ?tx"
  have s: "snd (approve_permit2 self w) = snd (wait_for_transaction_receipt ?hx ?w5)"
    and f: "fst (approve_permit2 self w) =
      (case fst (wait_for_transaction_receipt ?hx ?w5) of Inl e \<Rightarrow> Inl e | Inr rc \<Rightarrow> Inr ?hx)"
    by (simp_all add: approve_permit2_run [OF assms] Let_def split: prod.splits sum.splits)
  have w5: "keccak ?w5 = keccak w" "tx_succeeds ?w5 = tx_succeeds w"
    "mempool ?w5 = mempool w @ [?tx]" "confirmed_count ?w5 = confirmed_count w"
    "block_number ?w5 = block_number w" "miner_active ?w5 = miner_active w"
    "\<not> down ?w5 (Wait_for_transaction_receipt (to_hex (keccak ?w5 ?tx)))"
    using assms by (simp_all add: after_approval_sent_def)
  have g: "tx_gas ?tx = 100000" by (simp add: approval_tx_def)
  {
    assume n: "\<not> miner_active w"
    then have "\<not> miner_active ?w5" by (simp add: w5)
    from wait_unmined [OF this, of ?hx]
    show "mempool (snd (approve_permit2 self w)) = mempool w @ [?tx]"
      and "confirmed_count (snd (approve_permit2 self w)) = confirmed_count w"
      by (simp_all add: s w5)
  }
  {
    assume "miner_active w"
    then have "miner_active ?w5" by (simp add: w5)
    note m = wait_mined [OF w5(7) this w5(3), unfolded w5 g]
    show "fst (approve_permit2 self w) = Inr ?hx"
      by (simp add: f m(1))
    show "mempool (snd (approve_permit2 self w)) = []"
      by (simp add: s m(2))
    show "confirmed_count (snd (approve_permit2 self w)) = Suc (confirmed_count w + length (mempool w))"
      by (simp add: s m(3))
    show "receipts (snd (approve_permit2 self w)) ?hx =
        Some \<lparr>r_status = (if tx_succeeds w ?tx then 1 else 0),
              r_blockNumber = block_number w + 1, r_gasUsed = 100000\<rparr>"
      by (simp add: s m(4))
  }
qed

text \<open>
  The ledger after \<open>ensure_permit2_approval\<close> has found the allowance too small: the
  approval transaction is among the account's transactions, pending or in a block.
\<close>

lemma ensure_submits:
  assumes "\<forall>r. \<not> down w r" "uint (allowance w) < MAX_UINT256"
  shows "transaction_count (snd (ensure_permit2_approval self w)) Pending =
           Suc (transaction_count w Pending) \<and>
     (\<not> miner_active w \<longrightarrow>
        mempool (snd (ensure_permit2_approval self w)) =
          mempool w @ [approval_tx self w (transaction_count w Pending)]) \<and>
     (miner_active w \<longrightarrow>
        fst (ensure_permit2_approval self w) =
          Inr (to_hex (keccak w (approval_tx self w (transaction_count w Pending)))) \<and>
        mempool (snd (ensure_permit2_approval self w)) = [] \<and>
        receipts (snd (ensure_permit2_approval self w))
          (to_hex (keccak w (approval_tx self w (transaction_count w Pending)))) =
          Some \<lparr>r_status = (if tx_succeeds w (approval_tx self w (transaction_count w Pending))
                             then 1 else 0),
                r_blockNumber = block_number w + 1, r_gasUsed = 100000\<rparr>)"
    and "transaction_count (snd (agent_ensure_permit2_approval self w)) Pending =
           Suc (transaction_count w Pending) \<and>
     (\<not> miner_active w \<longrightarrow>
        mempool (snd (agent_ensure_permit2_approval self w)) =
          mempool w @ [approval_tx self w (transaction_count w Pending)]) \<and>
     (miner_active w \<longrightarrow>
        fst (agent_ensure_permit2_approval self w) =
          Inr (to_hex (keccak w (approval_tx self w (transaction_count w Pending)))) \<and>
        mempool (snd (agent_ensure_permit2_approval self w)) = [] \<and>
        receipts (snd (agent_ensure_permit2_approval self w))
          (to_hex (keccak w (approval_tx self w (transaction_count w Pending)))) =
          Some \<lparr>r_status = (if tx_succeeds w (approval_tx self w (transaction_count w Pending))
                             then 1 else 0),
                r_blockNumber = block_number w + 1, r_gasUsed = 100000\<rparr>)"
proof -
  let ?w1 = "w\<lparr>rpc_log := rpc_log w @ [Allowance]\<rparr>"
  obtain r w' where rw: "approve_permit2 self ?w1 = (r, w')"
    by (cases "approve_permit2 self ?w1")
  have d: "\<forall>r. \<not> down ?w1 r" using assms(1) by simp
  have eq: "approval_tx self ?w1 (transaction_count ?w1 Pending) =
      approval_tx self w (transaction_count w Pending)"
    "keccak ?w1 = keccak w" "tx_succeeds ?w1 = tx_succeeds w" "mempool ?w1 = mempool w"
    "confirmed_count ?w1 = confirmed_count w" "block_number ?w1 = block_number w"
    "miner_active ?w1 = miner_active w"
    by (simp_all add: approval_tx_def transaction_count_def)
  note l = approve_permit2_ledger [OF d, of self, unfolded eq rw fst_conv snd_conv]
  have led: "transaction_count w' Pending = Suc (transaction_count w Pending) \<and>
     (\<not> miner_active w \<longrightarrow>
        mempool w' = mempool w @ [approval_tx self w (transaction_count w Pending)]) \<and>
     (miner_active w \<longrightarrow>
        r = Inr (to_hex (keccak w (approval_tx self w (transaction_count w Pending)))) \<and>
        mempool w' = [] \<and>
        receipts w' (to_hex (keccak w (approval_tx self w (transaction_count w Pending)))) =
          Some \<lparr>r_status = (if tx_succeeds w (approval_tx self w (transaction_count w Pending))
                             then 1 else 0),
                r_blockNumber = block_number w + 1, r_gasUsed = 100000\<rparr>)"
    using l by (cases "miner_active w") (simp_all add: transaction_count_def)
  have tc: "transaction_count (w'\<lparr>log := x\<rparr>) Pending = transaction_count w' Pending" for x
    by (simp add: transaction_count_def)
  show "transaction_count (snd (ensure_permit2_approval self w)) Pending =
           Suc (transaction_count w Pending) \<and>
     (\<not> miner_active w \<longrightarrow>
        mempool (snd (ensure_permit2_approval self w)) =
          mempool w @ [approval_tx self w (transaction_count w Pending)]) \<and>
     (miner_active w \<longrightarrow>
        fst (ensure_permit2_approval self w) =
          Inr (to_hex (keccak w (approval_tx self w (transaction_count w Pending)))) \<and>
        mempool (snd (ensure_permit2_approval self w)) = [] \<and>
        receipts (snd (ensure_permit2_approval self w))
          (to_hex (keccak w (approval_tx self w (transaction_count w Pending)))) =
          Some \<lparr>r_status = (if tx_succeeds w (approval_tx self w (transaction_count w Pending))
                             then 1 else 0),
                r_blockNumber = block_number w + 1, r_gasUsed = 100000\<rparr>)"
    using assms led
    by (cases r) (simp_all add: ensure_permit2_approval_cases rw tc)
  show "transaction_count (snd (agent_ensure_permit2_approval self w)) Pending =
           Suc (transaction_count w Pending) \<and>
     (\<not> miner_active w \<longrightarrow>
        mempool (snd (agent_ensure_permit2_approval self w)) =
          mempool w @ [approval_tx self w (transaction_count w Pending)]) \<and>
     (miner_active w \<longrightarrow>
        fst (agent_ensure_permit2_approval self w) =
          Inr (to_hex (keccak w (approval_tx self w (transaction_count w Pending)))) \<and>
        mempool (snd (agent_ensure_permit2_approval self w)) = [] \<and>
        receipts (snd (agent_ensure_permit2_approval self w))
          (to_hex (keccak w (approval_tx self w (transaction_count w Pending)))) =
          Some \<lparr>r_status = (if tx_succeeds w (approval_tx self w (transaction_count w Pending))
                             then 1 else 0),
                r_blockNumber = block_number w + 1, r_gasUsed = 100000\<rparr>)"
    using assms led
    by (cases r) (simp_all add: agent_ensure_permit2_approval_cases rw tc)
qed

lemma ensure_requests:
  "(fst (ensure_permit2_approval self w) = Inr [] \<longleftrightarrow>
      \<not> down w Allowance \<and> uint (allowance w) = MAX_UINT256) \<and>
   (fst (agent_ensure_permit2_approval self w) = Inr [] \<longleftrightarrow>
      \<not> down w Allowance \<and> uint (allowance w) = MAX_UINT256) \<and>
   (\<not> down w Allowance \<and> uint (allowance w) = MAX_UINT256 \<longrightarrow>
      rpc_log (snd (ensure_permit2_approval self w)) = rpc_log w @ [Allowance] \<and>
      mempool (snd (ensure_permit2_approval self w)) = mempool w \<and>
      rpc_log (snd (agent_ensure_permit2_approval self w)) = rpc_log w @ [Allowance] \<and>
      mempool (snd (agent_ensure_permit2_approval self w)) = mempool w) \<and>
   ((\<forall>r. \<not> down w r) \<and> uint (allowance w) < MAX_UINT256 \<longrightarrow>
      rpc_log (snd (ensure_permit2_approval self w)) =
        rpc_log w @ [Allowance, Get_transaction_count Pending, Max_priority_fee, Gas_price,
                     Send_raw_transaction (approval_tx self w (transaction_count w Pending)),
                     Wait_for_transaction_receipt
                       (to_hex (keccak w (approval_tx self w (transaction_count w Pending))))] \<and>
      rpc_log (snd (agent_ensure_permit2_approval self w)) =
        rpc_log w @ [Allowance, Get_transaction_count Pending, Max_priority_fee, Gas_price,
                     Send_raw_transaction (approval_tx self w (transaction_count w Pending)),
                     Wait_for_transaction_receipt
                       (to_hex (keccak w (approval_tx self w (transaction_count w Pending))))])"
  using ensure_empty_iff agent_ensure_empty_iff rpc_log_ensure rpc_log_agent_ensure
  by (simp add: ensure_permit2_approval_cases agent_ensure_permit2_approval_cases)

text \<open>
  C9: \<open>ensure_permit2_approval\<close> (the service's and the agent's) returns the empty string
  exactly when the allowance read is \<open>2 ^ 256 - 1\<close>, and then it has made no request
  but the allowance query and the ledger holds no new transaction. For every smaller
  allowance, with no request failing, it submits an approval transaction for
  \<open>2 ^ 256 - 1\<close> with the pending-inclusive nonce and waits for its receipt: the
  account's pending-inclusive transaction count has grown by one, and the transaction is
  at the end of the pending ones, or in the new block with its receipt.
\<close>

theorem ensure_permit2_approval_threshold:
  "(fst (ensure_permit2_approval self w) = Inr [] \<longleftrightarrow>
      \<not> down w Allowance \<and> uint (allowance w) = MAX_UINT256) \<and>
   (fst (agent_ensure_permit2_approval self w) = Inr [] \<longleftrightarrow>
      \<not> down w Allowance \<and> uint (allowance w) = MAX_UINT256) \<and>
   (\<not> down w Allowance \<and> uint (allowance w) = MAX_UINT256 \<longrightarrow>
      rpc_log (snd (ensure_permit2_approval self w)) = rpc_log w @ [Allowance] \<and>
      mempool (snd (ensure_permit2_approval self w)) = mempool w \<and>
      rpc_log (snd (agent_ensure_permit2_approval self w)) = rpc_log w @ [Allowance] \<and>
      mempool (snd (agent_ensure_permit2_approval self w)) = mempool w) \<and>
   ((\<forall>r. \<not> down w r) \<and> uint (allowance w) < MAX_UINT256 \<longrightarrow>
      rpc_log (snd (ensure_permit2_approval self w)) =
        rpc_log w @ [Allowance, Get_transaction_count Pending, Max_priority_fee, Gas_price,
                     Send_raw_transaction (approval_tx self w (transaction_count w Pending)),
                     Wait_for_transaction_receipt
                       (to_hex (keccak w (approval_tx self w (transaction_count w Pending))))] \<and>
      rpc_log (snd (agent_ensure_permit2_approval self w)) =
        rpc_log w @ [Allowance, Get_transaction_count Pending, Max_priority_fee, Gas_price,
                     Send_raw_transaction (approval_tx self w (transaction_count w Pending)),
                     Wait_for_transaction_receipt
                       (to_hex (keccak w (approval_tx self w (transaction_count w Pending))))]) \<and>
   ((\<forall>r. \<not> down w r) \<and> uint (allowance w) < MAX_UINT256 \<longrightarrow>
      (transaction_count (snd (ensure_permit2_approval self w)) Pending =
           Suc (transaction_count w Pending) \<and>
       (\<not> miner_active w \<longrightarrow>
          mempool (snd (ensure_permit2_approval self w)) =
            mempool w @ [approval_tx self w (transaction_count w Pending)]) \<and>
       (miner_active w \<longrightarrow>
          fst (ensure_permit2_approval self w) =
            Inr (to_hex (keccak w (approval_tx self w (transaction_count w Pending)))) \<and>
          mempool (snd (ensure_permit2_approval self w)) = [] \<and>
          receipts (snd (ensure_permit2_approval self w))
            (to_hex (keccak w (approval_tx self w (transaction_count w Pending)))) =
            Some \<lparr>r_status = (if tx_succeeds w (approval_tx self w (transaction_count w Pending))
                               then 1 else 0),
                  r_blockNumber = block_number w + 1, r_gasUsed = 100000\<rparr>)) \<and>
      (transaction_count (snd (agent_ensure_permit2_approval self w)) Pending =
           Suc (transaction_count w Pending) \<and>
       (\<not> miner_active w \<longrightarrow>
          mempool (snd (agent_ensure_permit2_approval self w)) =
            mempool w @ [approval_tx self w (transaction_count w Pending)]) \<and>
       (miner_active w \<longrightarrow>
          fst (agent_ensure_permit2_approval self w) =
            Inr (to_hex (keccak w (approval_tx self w (transaction_count w Pending)))) \<and>
          mempool (snd (agent_ensure_permit2_approval self w)) = [] \<and>
          receipts (snd (agent_ensure_permit2_approval self w))
            (to_hex (keccak w (approval_tx self w (transaction_count w Pending)))) =
            Some \<lparr>r_status = (if tx_succeeds w (approval_tx self w (transaction_count w Pending))
                               then 1 else 0),
                  r_blockNumber = block_number w + 1, r_gasUsed = 100000\<rparr>)))"
proof -
  note r = ensure_requests [of self w]
  have e: "(\<forall>r. \<not> down w r) \<and> uint (allowance w) < MAX_UINT256 \<longrightarrow>
      (transaction_count (snd (ensure_permit2_approval self w)) Pending =
           Suc (transaction_count w Pending) \<and>
       (\<not> miner_active w \<longrightarrow>
          mempool (snd (ensure_permit2_approval self w)) =
            mempool w @ [approval_tx self w (transaction_count w Pending)]) \<and>
       (miner_active w \<longrightarrow>
          fst (ensure_permit2_approval self w) =
            Inr (to_hex (keccak w (approval_tx self w (transaction_count w Pending)))) \<and>
          mempool (snd (ensure_permit2_approval self w)) = [] \<and>
          receipts (snd (ensure_permit2_approval self w))
            (to_hex (keccak w (approval_tx self w (transaction_count w Pending)))) =
            Some \<lparr>r_status = (if tx_succeeds w (approval_tx self w (transaction_count w Pending))
                               then 1 else 0),
                  r_blockNumber = block_number w + 1, r_gasUsed = 100000\<rparr>)) \<and>
      (transaction_count (snd (agent_ensure_permit2_approval self w)) Pending =
           Suc (transaction_count w Pending) \<and>
       (\<not> miner_active w \<longrightarrow>
          mempool (snd (agent_ensure_permit2_approval self w)) =
            mempool w @ [approval_tx self w (transaction_count w Pending)]) \<and>
       (miner_active w \<longrightarrow>
          fst (agent_ensure_permit2_approval self w) =
            Inr (to_hex (keccak w (approval_tx self w (transaction_count w Pending)))) \<and>
          mempool (snd (agent_ensure_permit2_approval self w)) = [] \<and>
          receipts (snd (agent_ensure_permit2_approval self w))
            (to_hex (keccak w (approval_tx self w (transaction_count w Pending)))) =
            Some \<lparr>r_status = (if tx_succeeds w (approval_tx self w (transaction_count w Pending))
                               then 1 else 0),
                  r_blockNumber = block_number w + 1, r_gasUsed = 100000\<rparr>))"
  proof (intro impI, elim conjE)
    assume a: "\<forall>r. \<not> down w r" "uint (allowance w) < MAX_UINT256"
    from ensure_submits [OF a, of self] show "(transaction_count (snd (ensure_permit2_approval self w)) Pending =
           Suc (transaction_count w Pending) \<and>
       (\<not> miner_active w \<longrightarrow>
          mempool (snd (ensure_permit2_approval self w)) =
            mempool w @ [approval_tx self w (transaction_count w Pending)]) \<and>
       (miner_active w \<longrightarrow>
          fst (ensure_permit2_approval self w) =
            Inr (to_hex (keccak w (approval_tx self w (transaction_count w Pending)))) \<and>
          mempool (snd (ensure_permit2_approval self w)) = [] \<and>
          receipts (snd (ensure_permit2_approval self w))
            (to_hex (keccak w (approval_tx self w (transaction_count w Pending)))) =
            Some \<lparr>r_status = (if tx_succeeds w (approval_tx self w (transaction_count w Pending))
                               then 1 else 0),
                  r_blockNumber = block_number w + 1, r_gasUsed = 100000\<rparr>)) \<and>
      (transaction_count (snd (agent_ensure_permit2_approval self w)) Pending =
           Suc (transaction_count w Pending) \<and>
       (\<not> miner_active w \<longrightarrow>
          mempool (snd (agent_ensure_permit2_approval self w)) =
            mempool w @ [approval_tx self w (transaction_count w Pending)]) \<and>
       (miner_active w \<longrightarrow>
          fst (agent_ensure_permit2_approval self w) =
            Inr (to_hex (keccak w (approval_tx self w (transaction_count w Pending)))) \<and>
          mempool (snd (agent_ensure_permit2_approval self w)) = [] \<and>
          receipts (snd (agent_ensure_permit2_approval self w))
            (to_hex (keccak w (approval_tx self w (transaction_count w Pending)))) =
            Some \<lparr>r_status = (if tx_succeeds w (approval_tx self w (transaction_count w Pending))
                               then 1 else 0),
                  r_blockNumber = block_number w + 1, r_gasUsed = 100000\<rparr>))"
      by (rule conjI)
  qed
  show ?thesis
    by (intro conjI)
       (rule r [THEN conjunct1], rule r [THEN conjunct2, THEN conjunct1],
        rule r [THEN conjunct2, THEN conjunct2, THEN conjunct1],
        rule r [THEN conjunct2, THEN conjunct2, THEN conjunct2], rule e)
qed

lemma uint_minus_1_256: "uint (- 1 :: 256 word) = MAX_UINT256"
  by (simp add: MAX_UINT256_def unsigned_minus_1_eq_mask mask_eq_exp_minus_1)

theorem ensure_permit2_approval_threshold_witness:
  "\<not> down (example_world\<lparr>allowance := - 1\<rparr>) Allowance \<and>
   uint (allowance (example_world\<lparr>allowance := - 1\<rparr>)) = MAX_UINT256 \<and>
   fst (ensure_permit2_approval example_service (example_world\<lparr>allowance := - 1\<rparr>)) = Inr [] \<and>
   rpc_log (snd (ensure_permit2_approval example_service (example_world\<lparr>allowance := - 1\<rparr>))) =
     [Allowance] \<and>
   (\<forall>r. \<not> down example_world r) \<and>
   uint (allowance example_world) < MAX_UINT256 \<and>
   fst (ensure_permit2_approval example_service example_world) \<noteq> Inr [] \<and>
   rpc_log (snd (ensure_permit2_approval example_service example_world)) =
     [Allowance, Get_transaction_count Pending, Max_priority_fee, Gas_price,
      Send_raw_transaction (approval_tx example_service example_world 7),
      Wait_for_transaction_receipt
        (to_hex (keccak example_world (approval_tx example_service example_world 7)))] \<and>
   \<not> miner_active example_world \<and>
   mempool (snd (ensure_permit2_approval example_service example_world)) =
     [approval_tx example_service example_world 7] \<and>
   (\<forall>r. \<not> down (example_world\<lparr>miner_active := True\<rparr>) r) \<and>
   uint (allowance (example_world\<lparr>miner_active := True\<rparr>)) < MAX_UINT256 \<and>
   miner_active (example_world\<lparr>miner_active := True\<rparr>) \<and>
   fst (ensure_permit2_approval example_service (example_world\<lparr>miner_active := True\<rparr>)) =
     Inr (to_hex (keccak example_world (approval_tx example_service example_world 7))) \<and>
   mempool (snd (ensure_permit2_approval example_service (example_world\<lparr>miner_active := True\<rparr>))) = []"
proof -
  let ?W = "example_world\<lparr>allowance := - 1\<rparr>"
  let ?M = "example_world\<lparr>miner_active := True\<rparr>"
  have h1: "\<not> down ?W Allowance" "uint (allowance ?W) = MAX_UINT256"
    by (simp_all add: example_world_def uint_minus_1_256)
  have h2: "\<forall>r. \<not> down example_world r" "uint (allowance example_world) < MAX_UINT256"
    "transaction_count example_world Pending = 7" "rpc_log example_world = []" "rpc_log ?W = []"
    "\<not> miner_active example_world" "mempool example_world = []"
    by (simp_all add: example_world_def MAX_UINT256_def transaction_count_def)
  have h3: "\<forall>r. \<not> down ?M r" "uint (allowance ?M) < MAX_UINT256" "miner_active ?M"
    "transaction_count ?M Pending = 7" "keccak ?M = keccak example_world"
    "approval_tx example_service ?M 7 = approval_tx example_service example_world 7"
    by (simp_all add: example_world_def MAX_UINT256_def transaction_count_def approval_tx_def)
  from ensure_permit2_approval_threshold [of example_service ?W]
    ensure_permit2_approval_threshold [of example_service example_world]
    ensure_permit2_approval_threshold [of example_service ?M] h1 h2 h3
  show ?thesis by simp
qed

lemma approve_permit2_times_out:
  assumes "\<forall>r. \<not> down w r" "\<not> miner_active w"
    and "receipts w (to_hex (keccak w (approval_tx self w (transaction_count w Pending)))) = None"
  shows "fst (approve_permit2 self w) =
           Inl (TimeExhausted (time_exhausted_message
                  (to_hex (keccak w (approval_tx self w (transaction_count w Pending))))))"
    and "same_ledger w (snd (approve_permit2 self w))"
    and "mempool (snd (approve_permit2 self w)) =
           mempool w @ [approval_tx self w (transaction_count w Pending)]"
proof -
  let ?tx = "approval_tx self w (transaction_count w Pending)"
  let ?hx = "to_hex (keccak w ?tx)"
  let ?w5 = "after_approval_sent w ?tx"
  have "\<not> down ?w5 (Wait_for_transaction_receipt ?hx)" "\<not> miner_active ?w5" "receipts ?w5 ?hx = None"
    using assms by (simp_all add: after_approval_sent_def)
  from wait_times_out [OF this]
  have *: "approve_permit2 self w =
     (Inl (TimeExhausted (time_exhausted_message ?hx)),
      ?w5\<lparr>rpc_log := rpc_log ?w5 @ [Wait_for_transaction_receipt ?hx]\<rparr>)"
    by (simp add: approve_permit2_run [OF assms(1)] Let_def)
  show "fst (approve_permit2 self w) = Inl (TimeExhausted (time_exhausted_message ?hx))"
    and "same_ledger w (snd (approve_permit2 self w))"
    and "mempool (snd (approve_permit2 self w)) = mempool w @ [?tx]"
    unfolding * by (simp_all add: after_approval_sent_def same_ledger_def)
qed

lemma same_ledger_approval_tx: "same_ledger w w' \<Longrightarrow> approval_tx self w' n = approval_tx self w n"
  by (simp add: same_ledger_def approval_tx_def)

lemma ensure_times_out:
  assumes "\<forall>r. \<not> down w r" "\<not> miner_active w" "uint (allowance w) < MAX_UINT256"
    and "receipts w (to_hex (keccak w (approval_tx self w (transaction_count w Pending)))) = None"
  shows "fst (ensure_permit2_approval self w) =
           Inl (BlockchainError (''Failed to approve Permit2: '' @ time_exhausted_message
                  (to_hex (keccak w (approval_tx self w (transaction_count w Pending))))))"
    and "same_ledger w (snd (ensure_permit2_approval self w))"
    and "mempool (snd (ensure_permit2_approval self w)) =
           mempool w @ [approval_tx self w (transaction_count w Pending)]"
    and "fst (agent_ensure_permit2_approval self w) =
           Inl (BlockchainError (''Failed to approve Permit2: '' @ time_exhausted_message
                  (to_hex (keccak w (approval_tx self w (transaction_count w Pending))))))"
    and "same_ledger w (snd (agent_ensure_permit2_approval self w))"
    and "mempool (snd (agent_ensure_permit2_approval self w)) =
           mempool w @ [approval_tx self w (transaction_count w Pending)]"
proof -
  let ?w1 = "w\<lparr>rpc_log := rpc_log w @ [Allowance]\<rparr>"
  let ?hx = "to_hex (keccak w (approval_tx self w (transaction_count w Pending)))"
  have eq: "approval_tx self ?w1 (transaction_count ?w1 Pending) =
      approval_tx self w (transaction_count w Pending)"
    by (simp add: approval_tx_def transaction_count_def)
  have k: "keccak ?w1 = keccak w" by simp
  have "\<forall>r. \<not> down ?w1 r" "\<not> miner_active ?w1"
    "receipts ?w1 (to_hex (keccak ?w1 (approval_tx self ?w1 (transaction_count ?w1 Pending)))) = None"
    using assms by (simp_all add: eq)
  note a = approve_permit2_times_out [OF this, unfolded eq k]
  obtain r w' where rw: "approve_permit2 self ?w1 = (r, w')"
    by (cases "approve_permit2 self ?w1")
  with a have f: "r = Inl (TimeExhausted (time_exhausted_message ?hx))" "same_ledger ?w1 w'"
    "mempool w' = mempool w @ [approval_tx self w (transaction_count w Pending)]"
    by simp_all
  show "fst (ensure_permit2_approval self w) =
           Inl (BlockchainError (''Failed to approve Permit2: '' @ time_exhausted_message ?hx))"
    and "same_ledger w (snd (ensure_permit2_approval self w))"
    and "mempool (snd (ensure_permit2_approval self w)) =
           mempool w @ [approval_tx self w (transaction_count w Pending)]"
    using assms(1,3) f(2,3) by (simp_all add: ensure_permit2_approval_cases rw f(1) same_ledger_def)
  show "fst (agent_ensure_permit2_approval self w) =
           Inl (BlockchainError (''Failed to approve Permit2: '' @ time_exhausted_message ?hx))"
    and "same_ledger w (snd (agent_ensure_permit2_approval self w))"
    and "mempool (snd (agent_ensure_permit2_approval self w)) =
           mempool w @ [approval_tx self w (transaction_count w Pending)]"
    using assms(1,3) f(2,3)
    by (simp_all add: agent_ensure_permit2_approval_cases rw f(1) same_ledger_def)
qed

lemma times_out_again:
  assumes "\<forall>r. \<not> down w r" and "\<not> miner_active w" and "uint (allowance w) < MAX_UINT256"
    and "n = transaction_count w Pending"
    and "receipts w (to_hex (keccak w (approval_tx self w (Suc n)))) = None"
    and "same_ledger w w1" and "mempool w1 = mempool w @ [approval_tx self w n]"
  shows "\<forall>r. \<not> down w1 r" and "\<not> miner_active w1" and "uint (allowance w1) < MAX_UINT256"
    and "receipts w1 (to_hex (keccak w1 (approval_tx self w1 (transaction_count w1 Pending)))) = None"
    and "approval_tx self w1 (transaction_count w1 Pending) = approval_tx self w (Suc n)"
    and "keccak w1 = keccak w"
proof -
  have c: "transaction_count w1 Pending = Suc n"
    using assms(4,6,7) by (simp add: transaction_count_def same_ledger_def)
  show "approval_tx self w1 (transaction_count w1 Pending) = approval_tx self w (Suc n)"
    using same_ledger_approval_tx [OF assms(6)] c by simp
  then show "receipts w1 (to_hex (keccak w1 (approval_tx self w1 (transaction_count w1 Pending)))) = None"
    using assms(5,6) by (simp add: same_ledger_def)
  show "\<forall>r. \<not> down w1 r" "\<not> miner_active w1" "uint (allowance w1) < MAX_UINT256"
    "keccak w1 = keccak w"
    using assms(1,2,3,6) by (simp_all add: same_ledger_def)
qed

text \<open>
  With the first approval still unconfirmed when its receipt wait runs out, a second call
  submits a second approval transaction, with the next nonce; both calls raise.
\<close>

theorem second_call_submits_second_approval:
  "isl (fst (ensure_permit2_approval example_service example_world)) \<and>
   isl (fst (ensure_permit2_approval example_service
               (snd (ensure_permit2_approval example_service example_world)))) \<and>
   map tx_nonce (mempool (snd (ensure_permit2_approval example_service example_world))) = [7] \<and>
   map tx_nonce (mempool (snd (ensure_permit2_approval example_service
               (snd (ensure_permit2_approval example_service example_world))))) = [7, 8]"
  by (simp add: swap_eval io_eval example_world_def Let_def)

text \<open>
  C3, as the code has it: \<open>ensure_permit2_approval\<close> keeps no record of a pending approval.
  Called twice in succession while the allowance is below \<open>2 ^ 256 - 1\<close>, no request fails
  and no block includes the first approval before the receipt wait runs out, each call
  raises \<open>BlockchainError\<close> (wrapping the wait's \<open>TimeExhausted\<close>) and each has submitted
  an approval transaction, the second with the next nonce.
\<close>

theorem repeated_approval_submits_again:
  assumes "\<forall>r. \<not> down w r" and "\<not> miner_active w" and "uint (allowance w) < MAX_UINT256"
    and "n = transaction_count w Pending"
    and "receipts w (to_hex (keccak w (approval_tx self w n))) = None"
    and "receipts w (to_hex (keccak w (approval_tx self w (Suc n)))) = None"
  shows "fst (ensure_permit2_approval self w) =
       Inl (BlockchainError (''Failed to approve Permit2: '' @
              time_exhausted_message (to_hex (keccak w (approval_tx self w n))))) \<and>
     fst (ensure_permit2_approval self (snd (ensure_permit2_approval self w))) =
       Inl (BlockchainError (''Failed to approve Permit2: '' @
              time_exhausted_message (to_hex (keccak w (approval_tx self w (Suc n)))))) \<and>
     mempool (snd (ensure_permit2_approval self w)) = mempool w @ [approval_tx self w n] \<and>
     mempool (snd (ensure_permit2_approval self (snd (ensure_permit2_approval self w)))) =
       mempool w @ [approval_tx self w n, approval_tx self w (Suc n)] \<and>
     fst (agent_ensure_permit2_approval self w) =
       Inl (BlockchainError (''Failed to approve Permit2: '' @
              time_exhausted_message (to_hex (keccak w (approval_tx self w n))))) \<and>
     fst (agent_ensure_permit2_approval self (snd (agent_ensure_permit2_approval self w))) =
       Inl (BlockchainError (''Failed to approve Permit2: '' @
              time_exhausted_message (to_hex (keccak w (approval_tx self w (Suc n)))))) \<and>
     mempool (snd (agent_ensure_permit2_approval self w)) = mempool w @ [approval_tx self w n] \<and>
     mempool (snd (agent_ensure_permit2_approval self (snd (agent_ensure_permit2_approval self w)))) =
       mempool w @ [approval_tx self w n, approval_tx self w (Suc n)]"
proof -
  have r: "receipts w (to_hex (keccak w (approval_tx self w (transaction_count w Pending)))) = None"
    using assms by simp
  note first = ensure_times_out [OF assms(1-3) r, folded assms(4)]
  note s = times_out_again [OF assms(1-4,6) first(2,3)]
  note second = ensure_times_out(1,3) [OF s(1-4), unfolded s(5) s(6)]
  note t = times_out_again [OF assms(1-4,6) first(5,6)]
  note asecond = ensure_times_out(4,6) [OF t(1-4), unfolded t(5) t(6)]
  show ?thesis
    using first(1,3,4,6) second asecond by (intro conjI) simp_all
qed

theorem repeated_approval_submits_again_witness:
  "(\<forall>r. \<not> down example_world r) \<and> \<not> miner_active example_world \<and>
   uint (allowance example_world) < MAX_UINT256 \<and>
   7 = transaction_count example_world Pending \<and>
   receipts example_world (to_hex (keccak example_world (approval_tx example_service example_world 7))) = None \<and>
   receipts example_world (to_hex (keccak example_world (approval_tx example_service example_world (Suc 7)))) = None \<and>
   fst (ensure_permit2_approval example_service example_world) =
     Inl (BlockchainError (''Failed to approve Permit2: '' @ time_exhausted_message
            (to_hex (keccak example_world (approval_tx example_service example_world 7))))) \<and>
   fst (ensure_permit2_approval example_service
          (snd (ensure_permit2_approval example_service example_world))) =
     Inl (BlockchainError (''Failed to approve Permit2: '' @ time_exhausted_message
            (to_hex (keccak example_world (approval_tx example_service example_world (Suc 7)))))) \<and>
   mempool (snd (ensure_permit2_approval example_service
               (snd (ensure_permit2_approval example_service example_world)))) =
     mempool example_world @ [approval_tx example_service example_world 7,
                              approval_tx example_service example_world (Suc 7)]"
proof -
  have h: "\<forall>r. \<not> down example_world r" "\<not> miner_active example_world"
    "uint (allowance example_world) < MAX_UINT256" "7 = transaction_count example_world Pending"
    "receipts example_world (to_hex (keccak example_world (approval_tx example_service example_world 7))) = None"
    "receipts example_world (to_hex (keccak example_world (approval_tx example_service example_world (Suc 7)))) = None"
    by (simp_all add: example_world_def MAX_UINT256_def transaction_count_def)
  note t = repeated_approval_submits_again [OF h]
  show ?thesis
    using h t [THEN conjunct1] t [THEN conjunct2, THEN conjunct1]
      t [THEN conjunct2, THEN conjunct2, THEN conjunct2, THEN conjunct1]
    by (intro conjI)
qed

subsection \<open>The fallback rate\<close>

lemma get_eth_price_fallback:
  assumes "fetch_price w = Raises e"
  shows "fst (get_eth_price w) = Inr (Fin 3000)"
    and "log (snd (get_eth_price w)) =
          log w @ [LogWarning (''Failed to get ETH price from LLM service: '' @ error_message e)]"
  using assms
  by (cases e; simp add: get_eth_price_def fetch_price_call_def io_eval)+


lemma estimate_usdc_output_by_rate:
  assumes "fst (get_eth_price w) = Inr p"
  shows "fst (estimate_usdc_output a s w) =
           Inr (float_mul a p, float_mul (float_mul a p) (float_sub (Fin 1) s))"
  using assms
  by (cases "get_eth_price w") (simp add: estimate_usdc_output_def io_eval Let_def)

lemma estimate_eth_output_by_rate:
  assumes "fst (get_eth_price w) = Inr p"
  shows "fst (estimate_eth_output a s w) =
     (case float_truediv a p of
        Inl e \<Rightarrow> Inl (BlockchainError (''Failed to estimate ETH output: '' @ error_message e))
      | Inr q \<Rightarrow> Inr (q, float_mul q (float_sub (Fin 1) s)))"
  using assms
  by (cases "get_eth_price w")
     (simp add: estimate_eth_output_def io_eval Let_def split: sum.splits)




subsection \<open>The quote\<close>



lemma get_eth_price_example: "fst (get_eth_price example_world) = Inr (Fin 3000)"
  by (rule get_eth_price_fallback) (simp add: example_world_def llm_service_fetch_price_def)

text \<open>
  The smallest positive float, \<open>2 ^ -1074\<close>, is a valid USDC amount greater than 0, and
  with no slippage and the rate 3000.0 the estimate and the minimum are both 0.0.
\<close>

theorem tiny_amount_estimates_zero:
  "0 < pow2 (- 1074) \<and> is_float64 (Fin (pow2 (- 1074))) \<and>
   fst (estimate_eth_output (Fin (pow2 (- 1074))) (Fin 0) example_world) = Inr (Fin 0, Fin 0)"
proof -
  have "pow2 (- 1075) * 2 = pow2 (- 1074)"
    using pow2_add [of "- 1075" 1] by (simp add: pow2_def [of 1])
  then have "pow2 (- 1074) < pow2 (- 1075) * 3000"
    using pow2_pos [of "- 1075"] by linarith
  then have "pow2 (- 1074) / 3000 < pow2 (- 1075)"
    by simp
  then have "round64 (pow2 (- 1074) / 3000) = Fin 0"
    by (intro round64_underflow) simp_all
  then have "float_truediv (Fin (pow2 (- 1074))) (Fin 3000) = Inr (Fin 0)"
    by (simp add: float_truediv_def)
  then show ?thesis
    by (simp add: estimate_eth_output_by_rate [OF get_eth_price_example] round64_pow2
        float_mul_def)
qed

text \<open>
  C1, as the code has it: for an amount \<open>a > 0\<close>, a slippage that is a float in \<open>[0, 1)\<close>
  and a rate \<open>p > 0\<close>, both estimators return a pair with
  \<open>minimum = estimate * (1 - slippage)\<close> in float arithmetic, \<open>minimum \<le> estimate\<close>, and
  both \<open>\<ge> 0\<close>; both are strictly positive when the exact estimate (\<open>a * p\<close>, or
  \<open>a / p\<close>) is at least \<open>2 ^ -1021\<close>, below which they can round to zero.
\<close>

theorem quote_estimate_bounds:
  assumes "round64 s = Fin s" and "0 \<le> s" and "s < 1" and "0 < a" and "0 < p"
    and "fst (get_eth_price w) = Inr (Fin p)"
  shows "(\<exists>est mn. fst (estimate_usdc_output (Fin a) (Fin s) w) = Inr (est, mn) \<and>
            mn = float_mul est (float_sub (Fin 1) (Fin s)) \<and>
            float_le mn est \<and> float_le (Fin 0) mn \<and> float_le (Fin 0) est \<and>
            (pow2 (- 1021) \<le> a * p \<longrightarrow> float_lt (Fin 0) est \<and> float_lt (Fin 0) mn)) \<and>
         (\<exists>est mn. fst (estimate_eth_output (Fin a) (Fin s) w) = Inr (est, mn) \<and>
            mn = float_mul est (float_sub (Fin 1) (Fin s)) \<and>
            float_le mn est \<and> float_le (Fin 0) mn \<and> float_le (Fin 0) est \<and>
            (pow2 (- 1021) \<le> a / p \<longrightarrow> float_lt (Fin 0) est \<and> float_lt (Fin 0) mn))"
proof -
  from slippage_factor [OF assms(1-3)]
  obtain c where c: "float_sub (Fin 1) (Fin s) = Fin c" "pow2 (- 53) \<le> c" "c \<le> 1"
    by blast
  have c': "round64 (1 - s) = Fin c" using c(1) by simp
  have ap: "0 < a * p" and adp: "0 < a / p" using assms(4,5) by simp_all
  have mul: "float_mul (Fin a) (Fin p) = round64 (a * p)"
    by (simp add: float_mul_def)
  have dv: "float_truediv (Fin a) (Fin p) = Inr (round64 (a / p))"
    using assms(5) by (simp add: float_truediv_def)
  show ?thesis
    using quote_bounds [OF ap c(2,3)] quote_bounds [OF adp c(2,3)]
    by (simp add: estimate_usdc_output_by_rate [OF assms(6)]
        estimate_eth_output_by_rate [OF assms(6)] mul dv c')
qed

theorem quote_estimate_bounds_witness:
  "round64 (1 / 2) = Fin (1 / 2) \<and> (0::real) \<le> 1 / 2 \<and> (1 / 2 :: real) < 1 \<and> (0::real) < 1 \<and>
   (0::real) < 3000 \<and> fst (get_eth_price example_world) = Inr (Fin 3000) \<and>
   (\<exists>est mn. fst (estimate_usdc_output (Fin 1) (Fin (1 / 2)) example_world) = Inr (est, mn) \<and>
      mn = float_mul est (float_sub (Fin 1) (Fin (1 / 2))) \<and>
      float_le mn est \<and> float_lt (Fin 0) est \<and> float_lt (Fin 0) mn) \<and>
   (\<exists>est mn. fst (estimate_eth_output (Fin 1) (Fin (1 / 2)) example_world) = Inr (est, mn) \<and>
      mn = float_mul est (float_sub (Fin 1) (Fin (1 / 2))) \<and>
      float_le mn est \<and> float_lt (Fin 0) est \<and> float_lt (Fin 0) mn)"
proof -
  have h: "round64 (1 / 2) = Fin (1 / 2)"
    using round64_pow2 [of "- 1"] by (simp add: pow2_def)
  have b: "pow2 (- 1021) \<le> 1 * 3000" "pow2 (- 1021) \<le> 1 / 3000"
  proof -
    have "pow2 (- 1021) \<le> pow2 (- 12)" by simp
    also have "\<dots> = 1 / 4096" by (simp add: pow2_def)
    finally show "pow2 (- 1021) \<le> 1 * 3000" "pow2 (- 1021) \<le> 1 / 3000" by simp_all
  qed
  from quote_estimate_bounds [OF h _ _ _ _ get_eth_price_example, of 1] b h get_eth_price_example
  show ?thesis by auto
qed

subsection \<open>The representation of amounts\<close>




end
